theory Spec2Isabelle
  imports Main
begin

section \<open>Values of the program\<close>

text \<open>
  The model follows the last revision of \<^verbatim>\<open>main.go\<close> (the one with the sub-commands
  \<^verbatim>\<open>rotate-creds\<close>, \<^verbatim>\<open>describe\<close>, \<^verbatim>\<open>delete\<close> and \<^verbatim>\<open>create\<close>).
  Go strings are byte sequences, here \<^typ>\<open>string\<close>. Go's \<^verbatim>\<open>int\<close> is only ever
  parsed, compared with 200 and printed, never computed with, so it is \<^typ>\<open>int\<close>.
\<close>

datatype httpMethod = MethodGet | MethodPut | MethodPost | MethodDelete

text \<open>\<^verbatim>\<open>type Version struct { Active bool; Number int }\<close>\<close>

record Version =
  Active :: bool
  Number :: int

text \<open>
  The request handed to \<^verbatim>\<open>client.Do\<close>: method, URL, the headers in the order they were
  added, and the content of the body reader (\<^verbatim>\<open>nil\<close> is \<open>None\<close>).
\<close>

record request =
  reqMethod :: httpMethod
  reqURL :: string
  reqHeader :: "(string \<times> string) list"
  reqBody :: "string option"

text \<open>
  What \<^verbatim>\<open>client.Do\<close> hands back: the status code and what \<^verbatim>\<open>ioutil.ReadAll(resp.Body)\<close>
  will give, the bytes (\<open>Inr\<close>) or a read error (\<open>Inl\<close>, its message).
\<close>

record response =
  StatusCode :: int
  respBody :: "string + string"

text \<open>\<^verbatim>\<open>url.Values\<close> built from a map literal: the keys are distinct.\<close>

type_synonym Values = "(string \<times> string list) list"

text \<open>
  Go \<^verbatim>\<open>error\<close> values. \<open>TransportError\<close> is an error of \<^verbatim>\<open>http.NewRequest\<close>,
  \<^verbatim>\<open>client.Do\<close> or \<^verbatim>\<open>ioutil.ReadAll\<close>, \<open>DecodeError\<close> one of \<^verbatim>\<open>json.Unmarshal\<close>; both
  carry the library's message. The others are built by the program itself.
\<close>

datatype error =
    TransportError string
  | DecodeError string
  | APIError string int string
  | NoActiveVersion
  | DeleteFailed string error
  | InvalidCommand

section \<open>Formatting\<close>

text \<open>The verb \<^verbatim>\<open>%d\<close> of \<^verbatim>\<open>fmt\<close>: decimal digits, a minus sign before a negative number.\<close>

function showNat :: "nat \<Rightarrow> string" where
  "showNat n = (if n < 10 then [''0123456789'' ! n]
                else showNat (n div 10) @ [''0123456789'' ! (n mod 10)])"
  by pat_completeness auto
termination
  by (relation "measure (\<lambda>n. n)") auto

declare showNat.simps [simp del]

definition showInt :: "int \<Rightarrow> string" where
  "showInt i = (if i < 0 then ''-'' @ showNat (nat (- i)) else showNat (nat i))"

text \<open>\<^verbatim>\<open>err.Error()\<close>, which is also what the verb \<^verbatim>\<open>%v\<close> prints for an error.\<close>

fun errorString :: "error \<Rightarrow> string" where
  "errorString (TransportError m) = m"
| "errorString (DecodeError m) = m"
| "errorString (APIError u st b) =
     ''Fastly API request for '' @ [CHR 39] @ u @ [CHR 39] @ '' failed: '' @ showInt st @ '', '' @ b"
| "errorString NoActiveVersion = ''No active version found.''"
| "errorString (DeleteFailed n e) =
     ''Unable to delete logging service '' @ n @ '': '' @ errorString e"
| "errorString InvalidCommand = ''Must provide valid command. See -h for more info.''"

section \<open>The environment: Go's standard library and the remote API\<close>

text \<open>
  The library functions the program calls are parameters of the model, collected in one
  record. \<open>'w\<close> is the state of everything behind \<^verbatim>\<open>client.Do\<close> (the network and the
  remote service); \<open>clientDo\<close> may answer differently each time.
  \<^item> \<open>httpNewRequest m u\<close>: the error of \<^verbatim>\<open>http.NewRequest(m, u, body)\<close>, if any;
  \<^item> \<open>clientDo\<close>: \<^verbatim>\<open>client.Do\<close>, a transport error or a response;
  \<^item> \<open>unmarshalVersions\<close>, \<open>unmarshalVersion\<close>, \<open>unmarshalConfs\<close>: \<^verbatim>\<open>json.Unmarshal\<close> into
    \<^verbatim>\<open>[]Version\<close>, \<^verbatim>\<open>Version\<close> and \<^verbatim>\<open>[]map[string]string\<close>;
  \<^item> \<open>jsonIndent\<close>: what \<^verbatim>\<open>json.Indent(&buf, data, "", "    ")\<close> leaves in the buffer;
  \<^item> \<open>valuesEncode\<close>: \<^verbatim>\<open>url.Values.Encode\<close>;
  \<^item> \<open>flagParse d a\<close>: \<^verbatim>\<open>flag.CommandLine.Parse(a)\<close> on the three string flags with the
    defaults \<open>d\<close>. The flag set exits on error, so the result is the exit status
    (\<open>Inl\<close>: 0 after \<^verbatim>\<open>-h\<close>, 2 after a malformed command line) or the values the three
    flag variables point to afterwards (\<open>Inr\<close>). The usage text goes to standard error,
    which the model leaves out.
\<close>

text \<open>The three flag variables \<^verbatim>\<open>*serviceID\<close>, \<^verbatim>\<open>*awsAccessKey\<close> and \<^verbatim>\<open>*loggingName\<close>.\<close>

record flags =
  flagServiceID :: string
  flagAwsAccessKey :: string
  flagLoggingName :: string

record 'w env =
  httpNewRequest :: "httpMethod \<Rightarrow> string \<Rightarrow> string option"
  clientDo :: "request \<Rightarrow> 'w \<Rightarrow> (string + response) \<times> 'w"
  unmarshalVersions :: "string \<Rightarrow> string + Version list"
  unmarshalVersion :: "string \<Rightarrow> string + Version"
  unmarshalConfs :: "string \<Rightarrow> string + (string \<rightharpoonup> string) list"
  jsonIndent :: "string \<Rightarrow> string"
  valuesEncode :: "Values \<Rightarrow> string"
  flagParse :: "flags \<Rightarrow> string list \<Rightarrow> int + flags"

text \<open>
  The state threaded through the program: the world behind the transport, the requests
  handed to \<^verbatim>\<open>client.Do\<close> so far (oldest first), and the lines written to standard output.
\<close>

record 'w state =
  world :: 'w
  sent :: "request list"
  stdout :: "string list"

section \<open>The request helper\<close>

text \<open>\<^verbatim>\<open>reqURL := "https://api.fastly.com" + path\<close>\<close>

definition apiURL :: "string \<Rightarrow> string" where
  "apiURL path = ''https://api.fastly.com'' @ path"

definition mkRequest :: "httpMethod \<Rightarrow> string \<Rightarrow> string \<Rightarrow> string option \<Rightarrow> request" where
  "mkRequest m path fastlyKey body =
     \<lparr>reqMethod = m, reqURL = apiURL path,
      reqHeader = [(''Fastly-Key'', fastlyKey), (''Accept'', ''application/json'')],
      reqBody = body\<rparr>"

definition fastlyHTTP ::
  "'w env \<Rightarrow> string \<Rightarrow> httpMethod \<Rightarrow> string \<Rightarrow> string option \<Rightarrow> 'w state \<Rightarrow> (error + string) \<times> 'w state" where
  "fastlyHTTP env path m fastlyKey body s =
     (case httpNewRequest env m (apiURL path) of
        Some e \<Rightarrow> (Inl (TransportError e), s)
      | None \<Rightarrow>
         (let req = mkRequest m path fastlyKey body;
              (r, w') = clientDo env req (world s);
              s' = s\<lparr>world := w', sent := sent s @ [req]\<rparr>
          in case r of
               Inl e \<Rightarrow> (Inl (TransportError e), s')
             | Inr resp \<Rightarrow>
                (case respBody resp of
                   Inl e \<Rightarrow> (Inl (TransportError e), s')
                 | Inr b \<Rightarrow>
                    if StatusCode resp \<noteq> 200
                    then (Inl (APIError (apiURL path) (StatusCode resp) b), s')
                    else (Inr b, s'))))"

section \<open>The steps of an update\<close>

text \<open>
  The paths that the program builds with \<^verbatim>\<open>fmt.Sprintf\<close>:
  \<^verbatim>\<open>/service/%s/version\<close>, \<^verbatim>\<open>/service/%s/version/%d/clone\<close>,
  \<^verbatim>\<open>/service/%s/version/%d/activate\<close>, \<^verbatim>\<open>/service/%s/version/%d/logging/s3\<close> and
  \<^verbatim>\<open>/service/%s/version/%d/logging/s3/%s\<close>.
\<close>

definition versionsPath :: "string \<Rightarrow> string" where
  "versionsPath serviceID = ''/service/'' @ serviceID @ ''/version''"

definition clonePath :: "string \<Rightarrow> int \<Rightarrow> string" where
  "clonePath serviceID versionID = ''/service/'' @ serviceID @ ''/version/'' @ showInt versionID @ ''/clone''"

definition activatePath :: "string \<Rightarrow> int \<Rightarrow> string" where
  "activatePath serviceID versionID =
     ''/service/'' @ serviceID @ ''/version/'' @ showInt versionID @ ''/activate''"

definition loggingPath :: "string \<Rightarrow> int \<Rightarrow> string" where
  "loggingPath serviceID versionID =
     ''/service/'' @ serviceID @ ''/version/'' @ showInt versionID @ ''/logging/s3''"

definition loggingNamePath :: "string \<Rightarrow> int \<Rightarrow> string \<Rightarrow> string" where
  "loggingNamePath serviceID versionID name =
     ''/service/'' @ serviceID @ ''/version/'' @ showInt versionID @ ''/logging/s3/'' @ name"

text \<open>The loop of \<^verbatim>\<open>getActiveService\<close>: the number of the first version marked active.\<close>

fun firstActive :: "Version list \<Rightarrow> int option" where
  "firstActive [] = None"
| "firstActive (v # vs) = (if Active v then Some (Number v) else firstActive vs)"

definition getActiveService :: "'w env \<Rightarrow> string \<Rightarrow> string \<Rightarrow> 'w state \<Rightarrow> (error + int) \<times> 'w state" where
  "getActiveService env serviceID fastlyKey s =
     (case fastlyHTTP env (versionsPath serviceID) MethodGet fastlyKey None s of
        (Inl e, s') \<Rightarrow> (Inl e, s')
      | (Inr body, s') \<Rightarrow>
         (case unmarshalVersions env body of
            Inl m \<Rightarrow> (Inl (DecodeError m), s')
          | Inr data \<Rightarrow>
             (case firstActive data of
                Some n \<Rightarrow> (Inr n, s')
              | None \<Rightarrow> (Inl NoActiveVersion, s'))))"

text \<open>
  \<^verbatim>\<open>cloneService\<close> returns \<^verbatim>\<open>data.Number, err\<close>; with a decoding error the number is of no
  use to the only caller, which looks at the error first, so the model returns the error alone.
\<close>

definition cloneService :: "'w env \<Rightarrow> string \<Rightarrow> int \<Rightarrow> string \<Rightarrow> 'w state \<Rightarrow> (error + int) \<times> 'w state" where
  "cloneService env serviceID versionID fastlyKey s =
     (case fastlyHTTP env (clonePath serviceID versionID) MethodPut fastlyKey None s of
        (Inl e, s') \<Rightarrow> (Inl e, s')
      | (Inr body, s') \<Rightarrow>
         (case unmarshalVersion env body of
            Inl m \<Rightarrow> (Inl (DecodeError m), s')
          | Inr data \<Rightarrow> (Inr (Number data), s')))"

definition activateService :: "'w env \<Rightarrow> string \<Rightarrow> int \<Rightarrow> string \<Rightarrow> 'w state \<Rightarrow> error option \<times> 'w state" where
  "activateService env serviceID versionID fastlyKey s =
     (case fastlyHTTP env (activatePath serviceID versionID) MethodPut fastlyKey None s of
        (Inl e, s') \<Rightarrow> (Some e, s')
      | (Inr body, s') \<Rightarrow> (None, s'))"

text \<open>The mutation \<open>fn\<close> is any function of the draft version's number that may use the transport.\<close>

definition updateService ::
  "'w env \<Rightarrow> string \<Rightarrow> string \<Rightarrow> (int \<Rightarrow> 'w state \<Rightarrow> error option \<times> 'w state) \<Rightarrow> 'w state
    \<Rightarrow> error option \<times> 'w state" where
  "updateService env fastlyKey serviceID fn s =
     (case getActiveService env serviceID fastlyKey s of
        (Inl e, s1) \<Rightarrow> (Some e, s1)
      | (Inr activeVersion, s1) \<Rightarrow>
         (case cloneService env serviceID activeVersion fastlyKey s1 of
            (Inl e, s2) \<Rightarrow> (Some e, s2)
          | (Inr newVersion, s2) \<Rightarrow>
             (case fn newVersion s2 of
                (Some e, s3) \<Rightarrow> (Some e, s3)
              | (None, s3) \<Rightarrow> activateService env serviceID newVersion fastlyKey s3)))"

section \<open>The mutations\<close>

definition updateLoggingCreds ::
  "'w env \<Rightarrow> string \<Rightarrow> int \<Rightarrow> string \<Rightarrow> string \<Rightarrow> string \<Rightarrow> string \<Rightarrow> 'w state \<Rightarrow> error option \<times> 'w state" where
  "updateLoggingCreds env serviceID versionID loggingName fastlyKey awsAccessKey awsSecretKey s =
     (let form = [(''access_key'', [awsAccessKey]), (''secret_key'', [awsSecretKey])] in
      case fastlyHTTP env (loggingNamePath serviceID versionID loggingName)
             MethodPut fastlyKey (Some (valuesEncode env form)) s of
        (Inl e, s') \<Rightarrow> (Some e, s')
      | (Inr body, s') \<Rightarrow> (None, s'))"

definition createLogConfiguration ::
  "'w env \<Rightarrow> string \<Rightarrow> int \<Rightarrow> string \<Rightarrow> string \<Rightarrow> string \<Rightarrow> 'w state \<Rightarrow> error option \<times> 'w state" where
  "createLogConfiguration env serviceID versionID fastlyKey awsAccessKey awsSecretKey s =
     (let form = [(''name'', [''s3-logs'']),
                  (''access_key'', [awsAccessKey]),
                  (''secret_key'', [awsSecretKey]),
                  (''bucket_name'', [''aws-frontend-logs'']),
                  (''path'', [''/fastly/'' @ serviceID])] in
      case fastlyHTTP env (loggingPath serviceID versionID)
             MethodPost fastlyKey (Some (valuesEncode env form)) s of
        (Inl e, s') \<Rightarrow> (Some e, s')
      | (Inr body, s') \<Rightarrow> (None, s'))"

definition getLogConfiguration :: "'w env \<Rightarrow> string \<Rightarrow> int \<Rightarrow> string \<Rightarrow> 'w state \<Rightarrow> (error + string) \<times> 'w state" where
  "getLogConfiguration env serviceID versionID fastlyKey s =
     (case fastlyHTTP env (loggingPath serviceID versionID) MethodGet fastlyKey None s of
        (Inl e, s') \<Rightarrow> (Inl e, s')
      | (Inr body, s') \<Rightarrow> (Inr body, s'))"

text \<open>\<^verbatim>\<open>c["name"]\<close> on a \<^verbatim>\<open>map[string]string\<close>: the empty string for a missing key.\<close>

definition confName :: "(string \<rightharpoonup> string) \<Rightarrow> string" where
  "confName c = (case c ''name'' of None \<Rightarrow> [] | Some n \<Rightarrow> n)"

text \<open>The loop of \<^verbatim>\<open>deleteLogConfiguration\<close> over the decoded endpoints.\<close>

fun deleteLoop ::
  "'w env \<Rightarrow> string \<Rightarrow> int \<Rightarrow> string \<Rightarrow> (string \<rightharpoonup> string) list \<Rightarrow> 'w state \<Rightarrow> error option \<times> 'w state" where
  "deleteLoop env serviceID versionID fastlyKey [] s = (None, s)"
| "deleteLoop env serviceID versionID fastlyKey (c # cs) s =
     (case fastlyHTTP env (loggingNamePath serviceID versionID (confName c)) MethodDelete fastlyKey None s of
        (Inl e, s') \<Rightarrow> (Some (DeleteFailed (confName c) e), s')
      | (Inr body, s') \<Rightarrow> deleteLoop env serviceID versionID fastlyKey cs s')"

definition deleteLogConfiguration :: "'w env \<Rightarrow> string \<Rightarrow> int \<Rightarrow> string \<Rightarrow> 'w state \<Rightarrow> error option \<times> 'w state" where
  "deleteLogConfiguration env serviceID versionID fastlyKey s =
     (case getLogConfiguration env serviceID versionID fastlyKey s of
        (Inl e, s') \<Rightarrow> (Some e, s')
      | (Inr data, s') \<Rightarrow>
         (case unmarshalConfs env data of
            Inl m \<Rightarrow> (Some (DecodeError m), s')
          | Inr confs \<Rightarrow> deleteLoop env serviceID versionID fastlyKey confs s'))"

text \<open>The closure that \<^verbatim>\<open>describeLogs\<close> passes to \<^verbatim>\<open>updateService\<close>.\<close>

definition describeFn :: "'w env \<Rightarrow> string \<Rightarrow> string \<Rightarrow> int \<Rightarrow> 'w state \<Rightarrow> error option \<times> 'w state" where
  "describeFn env fastlyKey serviceID versionID s =
     (case getLogConfiguration env serviceID versionID fastlyKey s of
        (Inl e, s') \<Rightarrow> (Some e, s')
      | (Inr data, s') \<Rightarrow> (None, s'\<lparr>stdout := stdout s' @ [jsonIndent env data @ [CHR 0x0A]]\<rparr>))"

section \<open>The command line\<close>

text \<open>
  How a run ends: \<^verbatim>\<open>main\<close> returns (exit status 0), \<^verbatim>\<open>os.Exit\<close> is called with a status,
  or the run panics.
\<close>

datatype exit = Returned | Exited int | Panicked

text \<open>\<^verbatim>\<open>os.Getenv\<close>: the empty string for a variable that is not set.\<close>

definition Getenv :: "(string \<rightharpoonup> string) \<Rightarrow> string \<Rightarrow> string" where
  "Getenv environ k = (case environ k of None \<Rightarrow> [] | Some v \<Rightarrow> v)"

definition check :: "error option \<Rightarrow> 'w state \<Rightarrow> exit \<times> 'w state" where
  "check err s =
     (case err of
        None \<Rightarrow> (Returned, s)
      | Some e \<Rightarrow> (Exited 1, s\<lparr>stdout := stdout s @ [errorString e @ [CHR 0x0A]]\<rparr>))"

text \<open>The visitor of \<^verbatim>\<open>checkArgs\<close>, run over the flags (name and current value) in order.\<close>

fun checkArgsVisit :: "(string \<times> string) list \<Rightarrow> 'w state \<Rightarrow> exit \<times> 'w state" where
  "checkArgsVisit [] s = (Returned, s)"
| "checkArgsVisit ((name, v) # fs) s =
     (if v = []
      then (Exited 1,
            s\<lparr>stdout := stdout s @
                [''Missing required arg '' @ [CHR 39] @ name @ [CHR 39] @ ''.'' @ [CHR 0x0A]]\<rparr>)
      else checkArgsVisit fs s)"

text \<open>\<^verbatim>\<open>flag.VisitAll\<close> visits every defined flag, set or not, in lexicographical order of the names.\<close>

definition checkArgs :: "flags \<Rightarrow> 'w state \<Rightarrow> exit \<times> 'w state" where
  "checkArgs fl s =
     checkArgsVisit [(''awsAccessKey'', flagAwsAccessKey fl),
                     (''loggingName'', flagLoggingName fl),
                     (''serviceID'', flagServiceID fl)] s"

definition rotateCreds ::
  "'w env \<Rightarrow> string \<Rightarrow> string \<Rightarrow> string \<Rightarrow> string \<Rightarrow> string \<Rightarrow> 'w state \<Rightarrow> exit \<times> 'w state" where
  "rotateCreds env fastlyKey serviceID loggingName awsAccessKey awsSecretKey s =
     (case updateService env fastlyKey serviceID
             (\<lambda>versionID. updateLoggingCreds env serviceID versionID loggingName fastlyKey
                             awsAccessKey awsSecretKey) s of
        (err, s') \<Rightarrow> check err s')"

definition describeLogs :: "'w env \<Rightarrow> string \<Rightarrow> string \<Rightarrow> 'w state \<Rightarrow> exit \<times> 'w state" where
  "describeLogs env fastlyKey serviceID s =
     (case updateService env fastlyKey serviceID (describeFn env fastlyKey serviceID) s of
        (err, s') \<Rightarrow> check err s')"

definition deleteLogs :: "'w env \<Rightarrow> string \<Rightarrow> string \<Rightarrow> 'w state \<Rightarrow> exit \<times> 'w state" where
  "deleteLogs env fastlyKey serviceID s =
     (case updateService env fastlyKey serviceID
             (\<lambda>versionID. deleteLogConfiguration env serviceID versionID fastlyKey) s of
        (err, s') \<Rightarrow> check err s')"

definition createLogs ::
  "'w env \<Rightarrow> string \<Rightarrow> string \<Rightarrow> string \<Rightarrow> string \<Rightarrow> 'w state \<Rightarrow> exit \<times> 'w state" where
  "createLogs env fastlyKey serviceID awsAccessKey awsSecretKey s =
     (case updateService env fastlyKey serviceID
             (\<lambda>versionID. createLogConfiguration env serviceID versionID fastlyKey
                             awsAccessKey awsSecretKey) s of
        (err, s') \<Rightarrow> check err s')"

text \<open>The flags as \<^verbatim>\<open>main\<close> defines them, with their default values.\<close>

definition flagDefaults :: flags where
  "flagDefaults = \<lparr>flagServiceID = [], flagAwsAccessKey = [], flagLoggingName = ''s3-logs''\<rparr>"

text \<open>
  \<^verbatim>\<open>main\<close>, given \<^verbatim>\<open>os.Args\<close> and the process environment. \<^verbatim>\<open>os.Args[2:]\<close> panics when
  there are fewer than two arguments; \<^verbatim>\<open>os.Args[1]\<close> is then never reached.
\<close>

definition main :: "'w env \<Rightarrow> string list \<Rightarrow> (string \<rightharpoonup> string) \<Rightarrow> 'w state \<Rightarrow> exit \<times> 'w state" where
  "main env args environ s =
     (if length args < 2 then (Panicked, s)
      else
        case flagParse env flagDefaults (drop 2 args) of
          Inl status \<Rightarrow> (Exited status, s)
        | Inr fl \<Rightarrow>
           (case checkArgs fl s of
              (Returned, s1) \<Rightarrow>
                (let awsSecretKey = Getenv environ ''AWS_SECRET_KEY'';
                     fastlyKey = Getenv environ ''FASTLY_KEY'';
                     command = args ! 1
                 in if command = ''rotate-creds'' then
                      rotateCreds env fastlyKey (flagServiceID fl) (flagLoggingName fl)
                        (flagAwsAccessKey fl) awsSecretKey s1
                    else if command = ''describe'' then
                      describeLogs env fastlyKey (flagServiceID fl) s1
                    else if command = ''delete'' then
                      deleteLogs env fastlyKey (flagServiceID fl) s1
                    else if command = ''create'' then
                      createLogs env fastlyKey (flagServiceID fl) (flagAwsAccessKey fl) awsSecretKey s1
                    else check (Some InvalidCommand) s1)
            | (x, s1) \<Rightarrow> (x, s1)))"

section \<open>Notions used to state the properties\<close>


text \<open>
  \<open>sentOnly P s s'\<close>: from \<open>s\<close> to \<open>s'\<close> the list of requests has only grown, and
  every request added satisfies \<open>P\<close>.
\<close>

definition sentOnly :: "(request \<Rightarrow> bool) \<Rightarrow> 'w state \<Rightarrow> 'w state \<Rightarrow> bool" where
  "sentOnly P s s' =
     (take (length (sent s)) (sent s') = sent s \<and> list_all P (drop (length (sent s)) (sent s')))"

text \<open>\<open>allowsBody P b\<close>: \<open>P\<close> holds of every request that \<open>fastlyHTTP\<close> builds with the body \<open>b\<close>.\<close>

definition allowsBody :: "(request \<Rightarrow> bool) \<Rightarrow> string option \<Rightarrow> bool" where
  "allowsBody P b = (\<forall>m path key. P (mkRequest m path key b))"

section \<open>A test double of the environment\<close>

text \<open>
  For the concrete runs below: a transport that plays back a script of answers, and
  stand-ins for the library functions that agree with the library on the inputs the
  runs use.
\<close>

fun scriptedDo ::
  "request \<Rightarrow> (string + response) list \<Rightarrow> (string + response) \<times> (string + response) list" where
  "scriptedDo req [] = (Inl ''connection refused'', [])"
| "scriptedDo req (a # as) = (a, as)"

definition stubUnmarshalVersions :: "string \<Rightarrow> string + Version list" where
  \<open>stubUnmarshalVersions b =
     (if b = ''[{"active":false,"number":4},{"active":true,"number":5}]''
      then Inr [\<lparr>Active = False, Number = 4\<rparr>, \<lparr>Active = True, Number = 5\<rparr>]
      else if b = ''[{"active":false,"number":4}]''
      then Inr [\<lparr>Active = False, Number = 4\<rparr>]
      else if b = ''[]'' then Inr []
      else Inl ''unexpected end of JSON input'')\<close>

definition stubUnmarshalVersion :: "string \<Rightarrow> string + Version" where
  \<open>stubUnmarshalVersion b =
     (if b = ''{"active":false,"number":6}'' then Inr \<lparr>Active = False, Number = 6\<rparr>
      else Inl ''unexpected end of JSON input'')\<close>

definition stubUnmarshalConfs :: "string \<Rightarrow> string + (string \<rightharpoonup> string) list" where
  \<open>stubUnmarshalConfs b =
     (if b = ''[{"name":"s3-logs"},{"name":"old-logs"},{"name":"audit"}]''
      then Inr [[''name'' \<mapsto> ''s3-logs''], [''name'' \<mapsto> ''old-logs''], [''name'' \<mapsto> ''audit'']]
      else if b = ''[]'' then Inr []
      else Inl ''unexpected end of JSON input'')\<close>

text \<open>
  \<^verbatim>\<open>url.Values.Encode\<close>: the keys sorted as byte strings, keys and values escaped as query
  components (letters, digits and \<^verbatim>\<open>-_.~\<close> kept, a space written \<^verbatim>\<open>+\<close>, any other byte
  written \<^verbatim>\<open>%XX\<close> in upper-case hexadecimal), the pairs \<^verbatim>\<open>key=value\<close> joined by \<^verbatim>\<open>&\<close>.
\<close>

definition unreserved :: "char \<Rightarrow> bool" where
  "unreserved c = (c \<in> set ''ABCDEFGHIJKLMNOPQRSTUVWXYZabcdefghijklmnopqrstuvwxyz0123456789-_.~'')"

definition hexByte :: "char \<Rightarrow> string" where
  "hexByte c = [''0123456789ABCDEF'' ! (of_char c div 16), ''0123456789ABCDEF'' ! (of_char c mod 16)]"

fun queryEscape :: "string \<Rightarrow> string" where
  "queryEscape [] = []"
| "queryEscape (c # cs) =
     (if unreserved c then [c]
      else if c = CHR '' '' then ''+''
      else CHR ''%'' # hexByte c) @ queryEscape cs"

fun strLess :: "string \<Rightarrow> string \<Rightarrow> bool" where
  "strLess [] [] = False"
| "strLess [] (d # ds) = True"
| "strLess (c # cs) [] = False"
| "strLess (c # cs) (d # ds) =
     (if c = d then strLess cs ds else (of_char c :: nat) < of_char d)"

fun insertKey :: "string \<times> string list \<Rightarrow> Values \<Rightarrow> Values" where
  "insertKey p [] = [p]"
| "insertKey p (q # qs) = (if strLess (fst q) (fst p) then q # insertKey p qs else p # q # qs)"

definition sortKeys :: "Values \<Rightarrow> Values" where
  "sortKeys v = foldr insertKey v []"

fun joinAmp :: "string list \<Rightarrow> string" where
  "joinAmp [] = []"
| "joinAmp [x] = x"
| "joinAmp (x # y # ys) = x @ ''&'' @ joinAmp (y # ys)"

definition stubEncode :: "Values \<Rightarrow> string" where
  "stubEncode v =
     joinAmp (concat (map (\<lambda>(k, vs). map (\<lambda>x. queryEscape k @ ''='' @ queryEscape x) vs)
                        (sortKeys v)))"

text \<open>
  \<^verbatim>\<open>json.Indent\<close> with the indent of four spaces, on the bodies that the runs print: the
  list of three endpoints is put on eleven lines, and the empty list and the empty object
  stay as they are.
\<close>

definition confsIndented :: string where
  \<open>confsIndented =
     ''['' @ [CHR 0x0A] @
     ''    {'' @ [CHR 0x0A] @
     ''        "name": "s3-logs"'' @ [CHR 0x0A] @
     ''    },'' @ [CHR 0x0A] @
     ''    {'' @ [CHR 0x0A] @
     ''        "name": "old-logs"'' @ [CHR 0x0A] @
     ''    },'' @ [CHR 0x0A] @
     ''    {'' @ [CHR 0x0A] @
     ''        "name": "audit"'' @ [CHR 0x0A] @
     ''    }'' @ [CHR 0x0A] @
     '']''\<close>

definition stubIndent :: "string \<Rightarrow> string" where
  \<open>stubIndent b =
     (if b = ''[{"name":"s3-logs"},{"name":"old-logs"},{"name":"audit"}]'' then confsIndented
      else b)\<close>

text \<open>
  The flag package on three string flags: \<^verbatim>\<open>-name value\<close>, \<^verbatim>\<open>-name=value\<close>, one or two
  dashes; parsing stops at the first argument that is not a flag or at \<^verbatim>\<open>--\<close>; \<^verbatim>\<open>-h\<close>
  and \<^verbatim>\<open>-help\<close> exit with 0, an unknown flag or a flag without its value with 2.
\<close>

definition setFlag :: "string \<Rightarrow> string \<Rightarrow> flags \<Rightarrow> flags option" where
  "setFlag name v fl =
     (if name = ''serviceID'' then Some (fl\<lparr>flagServiceID := v\<rparr>)
      else if name = ''awsAccessKey'' then Some (fl\<lparr>flagAwsAccessKey := v\<rparr>)
      else if name = ''loggingName'' then Some (fl\<lparr>flagLoggingName := v\<rparr>)
      else None)"

definition splitEq :: "string \<Rightarrow> string \<times> string option" where
  "splitEq name =
     (case name of
        [] \<Rightarrow> ([], None)
      | c # cs \<Rightarrow>
         (if CHR ''='' \<in> set cs
          then (c # takeWhile (\<lambda>x. x \<noteq> CHR ''='') cs,
                Some (tl (dropWhile (\<lambda>x. x \<noteq> CHR ''='') cs)))
          else (name, None)))"

fun stubFlagParse :: "flags \<Rightarrow> string list \<Rightarrow> int + flags" where
  "stubFlagParse fl [] = Inr fl"
| "stubFlagParse fl (a # rest) =
     (if length a < 2 \<or> hd a \<noteq> CHR ''-'' then Inr fl
      else if a = ''--'' then Inr fl
      else
        (let name0 = (if a ! 1 = CHR ''-'' then drop 2 a else drop 1 a) in
         if name0 = [] \<or> hd name0 = CHR ''-'' \<or> hd name0 = CHR ''='' then Inl 2
         else
           (case splitEq name0 of
              (name, Some v) \<Rightarrow>
                (case setFlag name v fl of
                   None \<Rightarrow> if name = ''help'' \<or> name = ''h'' then Inl 0 else Inl 2
                 | Some fl' \<Rightarrow> stubFlagParse fl' rest)
            | (name, None) \<Rightarrow>
                (case setFlag name [] fl of
                   None \<Rightarrow> if name = ''help'' \<or> name = ''h'' then Inl 0 else Inl 2
                 | Some _ \<Rightarrow>
                    (case rest of
                       [] \<Rightarrow> Inl 2
                     | v # rest' \<Rightarrow>
                        (case setFlag name v fl of
                           None \<Rightarrow> Inl 2
                         | Some fl' \<Rightarrow> stubFlagParse fl' rest'))))))"

definition stubEnv :: "(string + response) list env" where
  "stubEnv =
     \<lparr>httpNewRequest = (\<lambda>m u. None), clientDo = scriptedDo,
      unmarshalVersions = stubUnmarshalVersions, unmarshalVersion = stubUnmarshalVersion,
      unmarshalConfs = stubUnmarshalConfs, jsonIndent = stubIndent, valuesEncode = stubEncode,
      flagParse = stubFlagParse\<rparr>"

text \<open>An answer with the given status and body, and the state at the start of a run.\<close>

definition answer :: "int \<Rightarrow> string \<Rightarrow> string + response" where
  "answer st b = Inr \<lparr>StatusCode = st, respBody = Inr b\<rparr>"

definition start :: "(string + response) list \<Rightarrow> (string + response) list state" where
  "start w = \<lparr>world = w, sent = [], stdout = []\<rparr>"

definition versionsBody :: string where
  \<open>versionsBody = ''[{"active":false,"number":4},{"active":true,"number":5}]''\<close>

definition cloneBody :: string where
  \<open>cloneBody = ''{"active":false,"number":6}''\<close>

definition confsBody :: string where
  \<open>confsBody = ''[{"name":"s3-logs"},{"name":"old-logs"},{"name":"audit"}]''\<close>

section \<open>The request helper: status codes\<close>

lemma fastlyHTTP_received:
  assumes "httpNewRequest env m (apiURL path) = None"
    and "clientDo env (mkRequest m path key body) (world s) = (Inr resp, w')"
    and "respBody resp = Inr b"
  shows "fastlyHTTP env path m key body s =
           (if StatusCode resp = 200 then Inr b
            else Inl (APIError (apiURL path) (StatusCode resp) b),
            s\<lparr>world := w', sent := sent s @ [mkRequest m path key body]\<rparr>)"
  using assms by (simp add: fastlyHTTP_def)


lemma fastlyHTTP_sent_any:
  "sent (snd (fastlyHTTP env path m key body s)) =
     sent s @ (if httpNewRequest env m (apiURL path) = None then [mkRequest m path key body] else [])"
  by (simp add: fastlyHTTP_def Let_def split: option.splits prod.splits sum.splits)

lemma fastlyHTTP_sent:
  assumes "httpNewRequest env m (apiURL path) = None"
  shows "sent (snd (fastlyHTTP env path m key body s)) = sent s @ [mkRequest m path key body]"
  using assms by (simp add: fastlyHTTP_def Let_def split: prod.splits sum.splits)

text \<open>
  Claim C5, as the code has it. Take a call of \<open>fastlyHTTP\<close> whose request was built and
  answered, the body of the answer read in full. If the status is not 200, whatever else it is, the call
  returns the error built from the URL, the status and the body, and the message of that
  error shows the status and the body. If the status is 200 the call returns the body.
  So the call returns a body only for status 200.
\<close>

theorem fastlyHTTP_non200:
  assumes "httpNewRequest env m (apiURL path) = None"
    and "clientDo env (mkRequest m path key body) (world s) = (Inr resp, w')"
    and "respBody resp = Inr b"
  shows "(StatusCode resp \<noteq> 200 \<longrightarrow>
            fst (fastlyHTTP env path m key body s) = Inl (APIError (apiURL path) (StatusCode resp) b) \<and>
            errorString (APIError (apiURL path) (StatusCode resp) b) =
              ''Fastly API request for '' @ [CHR 39] @ ''https://api.fastly.com'' @ path @ [CHR 39] @
              '' failed: '' @ showInt (StatusCode resp) @ '', '' @ b) \<and>
         (StatusCode resp = 200 \<longrightarrow> fst (fastlyHTTP env path m key body s) = Inr b) \<and>
         (\<forall>b'. fst (fastlyHTTP env path m key body s) = Inr b' \<longrightarrow> StatusCode resp = 200 \<and> b' = b)"
  using fastlyHTTP_received [OF assms] by (simp add: apiURL_def)

theorem fastlyHTTP_non200_witness:
  "fst (fastlyHTTP stubEnv ''/service/svc/version'' MethodGet ''key'' None
          (start [answer 404 ''not found''])) =
     Inl (APIError ''https://api.fastly.com/service/svc/version'' 404 ''not found'') \<and>
   fst (fastlyHTTP stubEnv ''/service/svc/version'' MethodGet ''key'' None
          (start [answer 503 ''unavailable''])) =
     Inl (APIError ''https://api.fastly.com/service/svc/version'' 503 ''unavailable'') \<and>
   errorString (APIError ''https://api.fastly.com/service/svc/version'' 503 ''unavailable'') =
     ''Fastly API request for '' @ [CHR 39] @ ''https://api.fastly.com/service/svc/version'' @
     [CHR 39] @ '' failed: 503, unavailable'' \<and>
   fst (fastlyHTTP stubEnv ''/service/svc/version'' MethodGet ''key'' None
          (start [answer 200 ''[]''])) = Inr ''[]''"
proof -
  have n: "httpNewRequest stubEnv MethodGet (apiURL ''/service/svc/version'') = None"
    by (simp add: stubEnv_def)
  have d: "clientDo stubEnv (mkRequest MethodGet ''/service/svc/version'' ''key'' None)
             (world (start [answer st b])) = (Inr \<lparr>StatusCode = st, respBody = Inr b\<rparr>, [])" for st b
    by (simp add: stubEnv_def start_def answer_def)
  have r: "respBody \<lparr>StatusCode = st, respBody = Inr b\<rparr> = Inr b" for st b
    by simp
  show ?thesis
    using fastlyHTTP_non200 [OF n d r, of 404 "''not found''"]
      fastlyHTTP_non200 [OF n d r, of 503 "''unavailable''"]
      fastlyHTTP_non200 [OF n d r, of 200 "''[]''"]
    by (simp add: showInt_def showNat.simps apiURL_def)
qed

text \<open>
  The claim as the specification words it speaks of any response with a status other than
  200. \<open>fastlyHTTP\<close> reads the body before it looks at the status: in the run below the
  remote answers 500 and reading the body fails, and the call returns the read error, which
  carries neither the status nor a body.
\<close>

theorem fastlyHTTP_unread_body_counterexample:
  "fastlyHTTP stubEnv ''/service/svc/version'' MethodGet ''key'' None
     (start [Inr \<lparr>StatusCode = 500, respBody = Inl ''unexpected EOF''\<rparr>]) =
   (Inl (TransportError ''unexpected EOF''),
    \<lparr>world = [], sent = [mkRequest MethodGet ''/service/svc/version'' ''key'' None], stdout = []\<rparr>) \<and>
   errorString (TransportError ''unexpected EOF'') = ''unexpected EOF''"
  by (simp add: fastlyHTTP_def stubEnv_def start_def)

section \<open>Concrete runs against the test double\<close>

lemmas path_simps = versionsPath_def clonePath_def activatePath_def loggingPath_def
  loggingNamePath_def showInt_def showNat.simps

lemma stub_call:
  "fastlyHTTP stubEnv path m key body \<lparr>world = answer st b # w, sent = rs, stdout = out\<rparr> =
     (if st = 200 then Inr b else Inl (APIError (apiURL path) st b),
      \<lparr>world = w, sent = rs @ [mkRequest m path key body], stdout = out\<rparr>)"
  by (simp add: fastlyHTTP_def stubEnv_def answer_def)

lemma run_get_5:
  "getActiveService stubEnv ''svc'' ''key'' (start (answer 200 versionsBody # w)) =
     (Inr 5, \<lparr>world = w, sent = [mkRequest MethodGet ''/service/svc/version'' ''key'' None], stdout = []\<rparr>)"
  by (simp add: getActiveService_def start_def stub_call path_simps)
    (simp add: stubEnv_def stubUnmarshalVersions_def versionsBody_def)

lemma run_get_none:
  "getActiveService stubEnv ''svc'' ''key'' (start (answer 200 ''[]'' # w)) =
     (Inl NoActiveVersion,
      \<lparr>world = w, sent = [mkRequest MethodGet ''/service/svc/version'' ''key'' None], stdout = []\<rparr>)"
  by (simp add: getActiveService_def start_def stub_call path_simps)
    (simp add: stubEnv_def stubUnmarshalVersions_def)

lemma run_clone_6:
  "cloneService stubEnv ''svc'' 5 ''key'' \<lparr>world = answer 200 cloneBody # w, sent = rs, stdout = out\<rparr> =
     (Inr 6,
      \<lparr>world = w, sent = rs @ [mkRequest MethodPut ''/service/svc/version/5/clone'' ''key'' None],
       stdout = out\<rparr>)"
  by (simp add: cloneService_def stub_call path_simps)
    (simp add: stubEnv_def cloneBody_def stubUnmarshalVersion_def)

lemma run_clone_500:
  "cloneService stubEnv ''svc'' 5 ''key'' \<lparr>world = answer 500 ''boom'' # w, sent = rs, stdout = out\<rparr> =
     (Inl (APIError ''https://api.fastly.com/service/svc/version/5/clone'' 500 ''boom''),
      \<lparr>world = w, sent = rs @ [mkRequest MethodPut ''/service/svc/version/5/clone'' ''key'' None],
       stdout = out\<rparr>)"
  by (simp add: cloneService_def stub_call path_simps apiURL_def)

lemma run_describe_6:
  "describeFn stubEnv ''key'' ''svc'' 6 \<lparr>world = answer 200 confsBody # w, sent = rs, stdout = out\<rparr> =
     (None,
      \<lparr>world = w,
       sent = rs @ [mkRequest MethodGet ''/service/svc/version/6/logging/s3'' ''key'' None],
       stdout = out @ [confsIndented @ [CHR 0x0A]]\<rparr>)"
  by (simp add: describeFn_def getLogConfiguration_def stub_call path_simps)
    (simp add: stubEnv_def stubIndent_def confsBody_def)

lemma run_activate_6:
  "activateService stubEnv ''svc'' 6 ''key'' \<lparr>world = answer 200 b # w, sent = rs, stdout = out\<rparr> =
     (None, \<lparr>world = w,
             sent = rs @ [mkRequest MethodPut ''/service/svc/version/6/activate'' ''key'' None],
             stdout = out\<rparr>)"
  by (simp add: activateService_def stub_call path_simps)

lemma run_create_6:
  "createLogConfiguration stubEnv ''svc'' 6 ''key'' ''AK'' ''SK''
     \<lparr>world = answer st b # w, sent = rs, stdout = out\<rparr> =
     (if st = 200 then None
      else Some (APIError ''https://api.fastly.com/service/svc/version/6/logging/s3'' st b),
      \<lparr>world = w,
       sent = rs @ [mkRequest MethodPost ''/service/svc/version/6/logging/s3'' ''key''
                 (Some ''access_key=AK&bucket_name=aws-frontend-logs&name=s3-logs&path=%2Ffastly%2Fsvc&secret_key=SK'')],
       stdout = out\<rparr>)"
  by (simp add: createLogConfiguration_def stub_call path_simps apiURL_def)
    (simp add: stubEnv_def stubEncode_def sortKeys_def unreserved_def hexByte_def)

section \<open>Finding the active version\<close>

lemma firstActive_filter:
  "firstActive data = (case filter Active data of [] \<Rightarrow> None | v # vs \<Rightarrow> Some (Number v))"
  by (induction data) auto

text \<open>
  Claim C2. Let the request for the version list succeed and its body decode to \<open>data\<close>.
  If exactly one entry of \<open>data\<close> is active, \<open>getActiveService\<close> returns the number of
  that entry and no error. If no entry is active, it returns the error whose message is
  \<^verbatim>\<open>No active version found.\<close>
\<close>

theorem getActiveService_one_or_none:
  assumes "fastlyHTTP env (versionsPath serviceID) MethodGet fastlyKey None s = (Inr body, s')"
    and "unmarshalVersions env body = Inr data"
  shows "(\<forall>v. filter Active data = [v] \<longrightarrow>
            getActiveService env serviceID fastlyKey s = (Inr (Number v), s')) \<and>
         (filter Active data = [] \<longrightarrow>
            getActiveService env serviceID fastlyKey s = (Inl NoActiveVersion, s') \<and>
            errorString NoActiveVersion = ''No active version found.'')"
  using assms by (simp add: getActiveService_def firstActive_filter)

theorem getActiveService_one_or_none_witness:
  \<open>getActiveService stubEnv ''svc'' ''key'' (start [answer 200 versionsBody]) =
     (Inr 5, \<lparr>world = [], sent = [mkRequest MethodGet (versionsPath ''svc'') ''key'' None], stdout = []\<rparr>) \<and>
   getActiveService stubEnv ''svc'' ''key'' (start [answer 200 ''[{"active":false,"number":4}]'']) =
     (Inl NoActiveVersion,
      \<lparr>world = [], sent = [mkRequest MethodGet (versionsPath ''svc'') ''key'' None], stdout = []\<rparr>)\<close>
proof -
  have c: "fastlyHTTP stubEnv (versionsPath ''svc'') MethodGet ''key'' None (start [answer 200 b]) =
             (Inr b, \<lparr>world = [], sent = [mkRequest MethodGet (versionsPath ''svc'') ''key'' None],
                      stdout = []\<rparr>)" for b
    by (simp add: start_def stub_call)
  have u1: "unmarshalVersions stubEnv versionsBody =
              Inr [\<lparr>Active = False, Number = 4\<rparr>, \<lparr>Active = True, Number = 5\<rparr>]"
    by (simp add: stubEnv_def stubUnmarshalVersions_def versionsBody_def)
  have u2: \<open>unmarshalVersions stubEnv ''[{"active":false,"number":4}]'' =
              Inr [\<lparr>Active = False, Number = 4\<rparr>]\<close>
    by (simp add: stubEnv_def stubUnmarshalVersions_def)
  show ?thesis
    using getActiveService_one_or_none [OF c u1] getActiveService_one_or_none [OF c u2]
    by simp
qed

section \<open>The update sequence\<close>

lemma activateService_sent:
  assumes "httpNewRequest env MethodPut (apiURL (activatePath serviceID n)) = None"
  shows "sent (snd (activateService env serviceID n fastlyKey s)) =
           sent s @ [mkRequest MethodPut (activatePath serviceID n) fastlyKey None]"
  using fastlyHTTP_sent [OF assms, of fastlyKey None s]
  by (cases "fastlyHTTP env (activatePath serviceID n) MethodPut fastlyKey None s")
    (auto simp add: activateService_def split: sum.splits)

text \<open>
  Claim C3. Whatever the mutation \<open>fn\<close> is: if \<open>getActiveService\<close> fails, or it succeeds and
  \<open>cloneService\<close> fails, or both succeed and the mutation returns an error, then
  \<open>updateService\<close> returns that error together with the state in which the failing step
  ended. No later step has run: nothing was sent after the failing step, in particular no
  activation request, and when one of the first two steps fails the result does not
  depend on \<open>fn\<close>.
\<close>

theorem updateService_first_error:
  "(getActiveService env serviceID fastlyKey s = (Inl e, s1) \<longrightarrow>
      updateService env fastlyKey serviceID fn s = (Some e, s1)) \<and>
   (getActiveService env serviceID fastlyKey s = (Inr v, s1) \<and>
    cloneService env serviceID v fastlyKey s1 = (Inl e, s2) \<longrightarrow>
      updateService env fastlyKey serviceID fn s = (Some e, s2)) \<and>
   (getActiveService env serviceID fastlyKey s = (Inr v, s1) \<and>
    cloneService env serviceID v fastlyKey s1 = (Inr n, s2) \<and>
    fn n s2 = (Some e, s3) \<longrightarrow>
      updateService env fastlyKey serviceID fn s = (Some e, s3))"
  by (simp add: updateService_def)

theorem updateService_first_error_witness:
  "updateService stubEnv ''key'' ''svc'' (\<lambda>v. createLogConfiguration stubEnv ''svc'' v ''key'' ''AK'' ''SK'')
     (start [answer 200 ''[]'']) =
     (Some NoActiveVersion,
      \<lparr>world = [], sent = [mkRequest MethodGet ''/service/svc/version'' ''key'' None], stdout = []\<rparr>) \<and>
   updateService stubEnv ''key'' ''svc'' (\<lambda>v. createLogConfiguration stubEnv ''svc'' v ''key'' ''AK'' ''SK'')
     (start [answer 200 versionsBody, answer 500 ''boom'']) =
     (Some (APIError ''https://api.fastly.com/service/svc/version/5/clone'' 500 ''boom''),
      \<lparr>world = [], sent = [mkRequest MethodGet ''/service/svc/version'' ''key'' None,
                          mkRequest MethodPut ''/service/svc/version/5/clone'' ''key'' None], stdout = []\<rparr>) \<and>
   updateService stubEnv ''key'' ''svc'' (\<lambda>v. createLogConfiguration stubEnv ''svc'' v ''key'' ''AK'' ''SK'')
     (start [answer 200 versionsBody, answer 200 cloneBody, answer 409 ''duplicate'']) =
     (Some (APIError ''https://api.fastly.com/service/svc/version/6/logging/s3'' 409 ''duplicate''),
      \<lparr>world = [],
       sent = [mkRequest MethodGet ''/service/svc/version'' ''key'' None,
               mkRequest MethodPut ''/service/svc/version/5/clone'' ''key'' None,
               mkRequest MethodPost ''/service/svc/version/6/logging/s3'' ''key''
                 (Some ''access_key=AK&bucket_name=aws-frontend-logs&name=s3-logs&path=%2Ffastly%2Fsvc&secret_key=SK'')],
       stdout = []\<rparr>)"
proof -
  let ?fn = "\<lambda>v. createLogConfiguration stubEnv ''svc'' v ''key'' ''AK'' ''SK''"
  note a = updateService_first_error [where fn = ?fn, THEN conjunct1, rule_format, OF run_get_none]
  note b = updateService_first_error [where fn = ?fn, THEN conjunct2, THEN conjunct1, rule_format,
      OF conjI [OF run_get_5 run_clone_500]]
  have r: "createLogConfiguration stubEnv ''svc'' 6 ''key'' ''AK'' ''SK''
             \<lparr>world = answer 409 ''duplicate'' # w, sent = rs, stdout = out\<rparr> =
           (Some (APIError ''https://api.fastly.com/service/svc/version/6/logging/s3'' 409 ''duplicate''),
            \<lparr>world = w,
             sent = rs @ [mkRequest MethodPost ''/service/svc/version/6/logging/s3'' ''key''
               (Some ''access_key=AK&bucket_name=aws-frontend-logs&name=s3-logs&path=%2Ffastly%2Fsvc&secret_key=SK'')],
             stdout = out\<rparr>)" for w rs out
    by (simp add: run_create_6)
  note c = updateService_first_error [where fn = ?fn, THEN conjunct2, THEN conjunct2, rule_format,
      OF conjI [OF run_get_5 conjI [OF run_clone_6 r]]]
  from a b c show ?thesis by simp
qed

text \<open>
  Claim C1, as the code has it. Let \<open>getActiveService\<close> and \<open>cloneService\<close> succeed, the
  clone being version \<open>n\<close>, and let the mutation end in state \<open>s3\<close> with result \<open>r\<close>. If the
  mutation succeeded, \<open>updateService\<close> goes on with \<open>activateService\<close> for \<open>n\<close>; if not,
  it returns the mutation's error and stops. So, when the activation URL is one a request
  can be built for, the activation request for \<open>n\<close> is sent after the mutation if and only
  if the mutation succeeded. This holds for every mutation, the closure of
  \<^verbatim>\<open>describeLogs\<close> included.
\<close>

theorem updateService_activates_iff_success:
  assumes "getActiveService env serviceID fastlyKey s = (Inr v, s1)"
    and "cloneService env serviceID v fastlyKey s1 = (Inr n, s2)"
    and "fn n s2 = (r, s3)"
    and "httpNewRequest env MethodPut (apiURL (activatePath serviceID n)) = None"
  shows "(r = None \<longrightarrow>
            updateService env fastlyKey serviceID fn s = activateService env serviceID n fastlyKey s3) \<and>
         (r \<noteq> None \<longrightarrow> updateService env fastlyKey serviceID fn s = (r, s3)) \<and>
         sent (snd (updateService env fastlyKey serviceID fn s)) =
           sent s3 @
           (if r = None then [mkRequest MethodPut (activatePath serviceID n) fastlyKey None] else [])"
proof (cases r)
  case None
  then have "updateService env fastlyKey serviceID fn s = activateService env serviceID n fastlyKey s3"
    using assms(1-3) by (simp add: updateService_def)
  then show ?thesis using None activateService_sent [OF assms(4)] by simp
next
  case (Some e)
  then have "updateService env fastlyKey serviceID fn s = (r, s3)"
    using assms(1-3) by (simp add: updateService_def)
  then show ?thesis using Some by simp
qed

theorem updateService_activates_iff_success_witness:
  "sent (snd (updateService stubEnv ''key'' ''svc''
                (\<lambda>v. createLogConfiguration stubEnv ''svc'' v ''key'' ''AK'' ''SK'')
                (start [answer 200 versionsBody, answer 200 cloneBody, answer 200 ''{}'',
                        answer 200 ''{}'']))) =
     [mkRequest MethodGet ''/service/svc/version'' ''key'' None,
      mkRequest MethodPut ''/service/svc/version/5/clone'' ''key'' None,
      mkRequest MethodPost ''/service/svc/version/6/logging/s3'' ''key''
        (Some ''access_key=AK&bucket_name=aws-frontend-logs&name=s3-logs&path=%2Ffastly%2Fsvc&secret_key=SK''),
      mkRequest MethodPut ''/service/svc/version/6/activate'' ''key'' None] \<and>
   sent (snd (updateService stubEnv ''key'' ''svc''
                (\<lambda>v. createLogConfiguration stubEnv ''svc'' v ''key'' ''AK'' ''SK'')
                (start [answer 200 versionsBody, answer 200 cloneBody, answer 409 ''duplicate'',
                        answer 200 ''{}'']))) =
     [mkRequest MethodGet ''/service/svc/version'' ''key'' None,
      mkRequest MethodPut ''/service/svc/version/5/clone'' ''key'' None,
      mkRequest MethodPost ''/service/svc/version/6/logging/s3'' ''key''
        (Some ''access_key=AK&bucket_name=aws-frontend-logs&name=s3-logs&path=%2Ffastly%2Fsvc&secret_key=SK'')]"
proof -
  let ?fn = "\<lambda>v. createLogConfiguration stubEnv ''svc'' v ''key'' ''AK'' ''SK''"
  have n: "httpNewRequest stubEnv MethodPut (apiURL (activatePath ''svc'' 6)) = None"
    by (simp add: stubEnv_def)
  note a = updateService_activates_iff_success [where fn = ?fn
      and s = "start [answer 200 versionsBody, answer 200 cloneBody, answer 200 ''{}'', answer 200 ''{}'']",
      OF run_get_5 run_clone_6 run_create_6 n, THEN conjunct2, THEN conjunct2]
  note b = updateService_activates_iff_success [where fn = ?fn
      and s = "start [answer 200 versionsBody, answer 200 cloneBody, answer 409 ''duplicate'',
                      answer 200 ''{}'']",
      OF run_get_5 run_clone_6 run_create_6 n, THEN conjunct2, THEN conjunct2]
  from a b show ?thesis by (simp add: path_simps)
qed

text \<open>
  The claim as the specification words it excludes the describe strategy from activation.
  The run below is a successful \<^verbatim>\<open>describe\<close>: version 5 is active, the clone is version 6,
  the mutation only reads the logging configuration of version 6 and prints it indented,
  and the last request sent activates version 6.
\<close>

theorem describe_activates_counterexample:
  "updateService stubEnv ''key'' ''svc'' (describeFn stubEnv ''key'' ''svc'')
     (start [answer 200 versionsBody, answer 200 cloneBody, answer 200 confsBody, answer 200 ''{}'']) =
   (None,
    \<lparr>world = [],
     sent = [mkRequest MethodGet ''/service/svc/version'' ''key'' None,
             mkRequest MethodPut ''/service/svc/version/5/clone'' ''key'' None,
             mkRequest MethodGet ''/service/svc/version/6/logging/s3'' ''key'' None,
             mkRequest MethodPut ''/service/svc/version/6/activate'' ''key'' None],
     stdout = [confsIndented @ [CHR 0x0A]]\<rparr>)"
  by (simp add: updateService_def run_get_5 run_clone_6 run_describe_6 run_activate_6)

lemma cloneService_received:
  assumes "httpNewRequest env MethodPut (apiURL (clonePath serviceID v)) = None"
    and "clientDo env (mkRequest MethodPut (clonePath serviceID v) fastlyKey None) (world s1) = (Inr resp, w2)"
    and "StatusCode resp = 200"
    and "respBody resp = Inr body"
    and "unmarshalVersion env body = Inr ver"
  shows "cloneService env serviceID v fastlyKey s1 =
           (Inr (Number ver),
            s1\<lparr>world := w2, sent := sent s1 @ [mkRequest MethodPut (clonePath serviceID v) fastlyKey None]\<rparr>)"
  using fastlyHTTP_received [OF assms(1,2,4)] assms(3,5) by (simp add: cloneService_def)

lemma cloneService_sent:
  "sent (snd (cloneService env serviceID v fastlyKey s1)) =
     sent s1 @
     (if httpNewRequest env MethodPut (apiURL (clonePath serviceID v)) = None
      then [mkRequest MethodPut (clonePath serviceID v) fastlyKey None] else [])"
  using fastlyHTTP_sent_any [of env "clonePath serviceID v" MethodPut fastlyKey None s1]
  by (cases "fastlyHTTP env (clonePath serviceID v) MethodPut fastlyKey None s1")
    (auto simp add: cloneService_def split: sum.splits)

text \<open>
  Claim C7. Let \<open>getActiveService\<close> return the version \<open>v\<close>. Then, whatever happens next,
  \<open>updateService\<close> goes on with \<open>cloneService\<close> for exactly \<open>v\<close>, and the request that
  \<open>cloneService\<close> sends (when one can be built) is the PUT to
  \<^verbatim>\<open>https://api.fastly.com/service/<serviceID>/version/<v>/clone\<close>, whatever the remote
  answers. If the remote answers that request with status 200 and a body that decodes to a
  version whose number differs from \<open>v\<close>, the mutation is run with that number, which is
  not \<open>v\<close>, in the state right after the clone request.
\<close>

theorem updateService_clones_active_version:
  assumes "getActiveService env serviceID fastlyKey s = (Inr v, s1)"
  shows "updateService env fastlyKey serviceID fn s =
           (case cloneService env serviceID v fastlyKey s1 of
              (Inl e, s2) \<Rightarrow> (Some e, s2)
            | (Inr n, s2) \<Rightarrow>
               (case fn n s2 of
                  (Some e, s3) \<Rightarrow> (Some e, s3)
                | (None, s3) \<Rightarrow> activateService env serviceID n fastlyKey s3)) \<and>
         sent (snd (cloneService env serviceID v fastlyKey s1)) =
           sent s1 @
           (if httpNewRequest env MethodPut
                 (''https://api.fastly.com/service/'' @ serviceID @ ''/version/'' @ showInt v @ ''/clone'') = None
            then [\<lparr>reqMethod = MethodPut,
                   reqURL = ''https://api.fastly.com/service/'' @ serviceID @ ''/version/'' @
                            showInt v @ ''/clone'',
                   reqHeader = [(''Fastly-Key'', fastlyKey), (''Accept'', ''application/json'')],
                   reqBody = None\<rparr>]
            else []) \<and>
         (\<forall>resp w2 body ver.
            httpNewRequest env MethodPut
              (''https://api.fastly.com/service/'' @ serviceID @ ''/version/'' @ showInt v @ ''/clone'') = None \<and>
            clientDo env
              \<lparr>reqMethod = MethodPut,
               reqURL = ''https://api.fastly.com/service/'' @ serviceID @ ''/version/'' @
                        showInt v @ ''/clone'',
               reqHeader = [(''Fastly-Key'', fastlyKey), (''Accept'', ''application/json'')],
               reqBody = None\<rparr> (world s1) = (Inr resp, w2) \<and>
            StatusCode resp = 200 \<and> respBody resp = Inr body \<and>
            unmarshalVersion env body = Inr ver \<and> Number ver \<noteq> v \<longrightarrow>
            updateService env fastlyKey serviceID fn s =
              (case fn (Number ver)
                      (s1\<lparr>world := w2,
                          sent := sent s1 @
                            [\<lparr>reqMethod = MethodPut,
                              reqURL = ''https://api.fastly.com/service/'' @ serviceID @ ''/version/'' @
                                       showInt v @ ''/clone'',
                              reqHeader = [(''Fastly-Key'', fastlyKey), (''Accept'', ''application/json'')],
                              reqBody = None\<rparr>]\<rparr>) of
                 (Some e, s3) \<Rightarrow> (Some e, s3)
               | (None, s3) \<Rightarrow> activateService env serviceID (Number ver) fastlyKey s3) \<and>
            Number ver \<noteq> v)"
proof (intro conjI allI impI)
  show "updateService env fastlyKey serviceID fn s =
           (case cloneService env serviceID v fastlyKey s1 of
              (Inl e, s2) \<Rightarrow> (Some e, s2)
            | (Inr n, s2) \<Rightarrow>
               (case fn n s2 of
                  (Some e, s3) \<Rightarrow> (Some e, s3)
                | (None, s3) \<Rightarrow> activateService env serviceID n fastlyKey s3))"
    using assms by (simp add: updateService_def)
next
  show "sent (snd (cloneService env serviceID v fastlyKey s1)) =
           sent s1 @
           (if httpNewRequest env MethodPut
                 (''https://api.fastly.com/service/'' @ serviceID @ ''/version/'' @ showInt v @ ''/clone'') = None
            then [\<lparr>reqMethod = MethodPut,
                   reqURL = ''https://api.fastly.com/service/'' @ serviceID @ ''/version/'' @
                            showInt v @ ''/clone'',
                   reqHeader = [(''Fastly-Key'', fastlyKey), (''Accept'', ''application/json'')],
                   reqBody = None\<rparr>]
            else [])"
    using cloneService_sent [of env serviceID v fastlyKey s1]
    by (simp add: mkRequest_def apiURL_def clonePath_def)
next
  fix resp w2 body ver
  assume h: "httpNewRequest env MethodPut
              (''https://api.fastly.com/service/'' @ serviceID @ ''/version/'' @ showInt v @ ''/clone'') = None \<and>
            clientDo env
              \<lparr>reqMethod = MethodPut,
               reqURL = ''https://api.fastly.com/service/'' @ serviceID @ ''/version/'' @
                        showInt v @ ''/clone'',
               reqHeader = [(''Fastly-Key'', fastlyKey), (''Accept'', ''application/json'')],
               reqBody = None\<rparr> (world s1) = (Inr resp, w2) \<and>
            StatusCode resp = 200 \<and> respBody resp = Inr body \<and>
            unmarshalVersion env body = Inr ver \<and> Number ver \<noteq> v"
  then have n: "httpNewRequest env MethodPut (apiURL (clonePath serviceID v)) = None"
    and d: "clientDo env (mkRequest MethodPut (clonePath serviceID v) fastlyKey None) (world s1) = (Inr resp, w2)"
    and st: "StatusCode resp = 200" and rb: "respBody resp = Inr body"
    and u: "unmarshalVersion env body = Inr ver"
    by (simp_all add: mkRequest_def apiURL_def clonePath_def)
  from h show "Number ver \<noteq> v" by simp
  show "updateService env fastlyKey serviceID fn s =
              (case fn (Number ver)
                      (s1\<lparr>world := w2,
                          sent := sent s1 @
                            [\<lparr>reqMethod = MethodPut,
                              reqURL = ''https://api.fastly.com/service/'' @ serviceID @ ''/version/'' @
                                       showInt v @ ''/clone'',
                              reqHeader = [(''Fastly-Key'', fastlyKey), (''Accept'', ''application/json'')],
                              reqBody = None\<rparr>]\<rparr>) of
                 (Some e, s3) \<Rightarrow> (Some e, s3)
               | (None, s3) \<Rightarrow> activateService env serviceID (Number ver) fastlyKey s3)"
    using assms cloneService_received [OF n d st rb u]
    by (simp add: updateService_def mkRequest_def apiURL_def clonePath_def)
qed


theorem updateService_clones_active_version_witness:
  "sent (snd (cloneService stubEnv ''svc'' 5 ''key''
                \<lparr>world = [answer 500 ''boom''],
                 sent = [mkRequest MethodGet ''/service/svc/version'' ''key'' None], stdout = []\<rparr>)) =
     [mkRequest MethodGet ''/service/svc/version'' ''key'' None,
      \<lparr>reqMethod = MethodPut, reqURL = ''https://api.fastly.com/service/svc/version/5/clone'',
       reqHeader = [(''Fastly-Key'', ''key''), (''Accept'', ''application/json'')], reqBody = None\<rparr>] \<and>
   updateService stubEnv ''key'' ''svc'' (\<lambda>v. createLogConfiguration stubEnv ''svc'' v ''key'' ''AK'' ''SK'')
     (start [answer 200 versionsBody, answer 200 cloneBody, answer 200 ''{}'', answer 200 ''{}'']) =
   (None,
    \<lparr>world = [],
     sent = [mkRequest MethodGet ''/service/svc/version'' ''key'' None,
      \<lparr>reqMethod = MethodPut, reqURL = ''https://api.fastly.com/service/svc/version/5/clone'',
       reqHeader = [(''Fastly-Key'', ''key''), (''Accept'', ''application/json'')], reqBody = None\<rparr>,
      mkRequest MethodPost ''/service/svc/version/6/logging/s3'' ''key''
        (Some ''access_key=AK&bucket_name=aws-frontend-logs&name=s3-logs&path=%2Ffastly%2Fsvc&secret_key=SK''),
      mkRequest MethodPut ''/service/svc/version/6/activate'' ''key'' None],
     stdout = []\<rparr>)"
proof -
  let ?fn = "\<lambda>v. createLogConfiguration stubEnv ''svc'' v ''key'' ''AK'' ''SK''"
  let ?w = "[answer 200 ''{}'', answer 200 ''{}'']"
  let ?get = "mkRequest MethodGet ''/service/svc/version'' ''key'' None"
  have h: "httpNewRequest stubEnv MethodPut
              (''https://api.fastly.com/service/'' @ ''svc'' @ ''/version/'' @ showInt 5 @ ''/clone'') = None \<and>
            clientDo stubEnv
              \<lparr>reqMethod = MethodPut,
               reqURL = ''https://api.fastly.com/service/'' @ ''svc'' @ ''/version/'' @
                        showInt 5 @ ''/clone'',
               reqHeader = [(''Fastly-Key'', ''key''), (''Accept'', ''application/json'')],
               reqBody = None\<rparr>
              (world \<lparr>world = answer 200 cloneBody # ?w, sent = [?get], stdout = []\<rparr>) =
              (Inr \<lparr>StatusCode = 200, respBody = Inr cloneBody\<rparr>, ?w) \<and>
            StatusCode \<lparr>StatusCode = 200, respBody = Inr cloneBody\<rparr> = 200 \<and>
            respBody \<lparr>StatusCode = 200, respBody = Inr cloneBody\<rparr> = Inr cloneBody \<and>
            unmarshalVersion stubEnv cloneBody = Inr \<lparr>Active = False, Number = 6\<rparr> \<and>
            Number \<lparr>Active = False, Number = 6\<rparr> \<noteq> 5"
    by (simp add: stubEnv_def answer_def stubUnmarshalVersion_def cloneBody_def)
  note a = updateService_clones_active_version [where fn = ?fn, OF run_get_5 [of "[answer 500 ''boom'']"],
      THEN conjunct2, THEN conjunct1]
  note b = updateService_clones_active_version [where fn = ?fn, OF run_get_5,
      THEN conjunct2, THEN conjunct2, THEN spec, THEN spec, THEN spec, THEN spec, THEN mp, OF h,
      THEN conjunct1]
  from a have a': "sent (snd (cloneService stubEnv ''svc'' 5 ''key''
                \<lparr>world = [answer 500 ''boom''], sent = [?get], stdout = []\<rparr>)) =
     [?get,
      \<lparr>reqMethod = MethodPut, reqURL = ''https://api.fastly.com/service/svc/version/5/clone'',
       reqHeader = [(''Fastly-Key'', ''key''), (''Accept'', ''application/json'')], reqBody = None\<rparr>]"
    by (simp add: stubEnv_def showInt_def showNat.simps)
  from b have b': "updateService stubEnv ''key'' ''svc'' ?fn
     (start [answer 200 versionsBody, answer 200 cloneBody, answer 200 ''{}'', answer 200 ''{}'']) =
   (None,
    \<lparr>world = [],
     sent = [?get,
      \<lparr>reqMethod = MethodPut, reqURL = ''https://api.fastly.com/service/svc/version/5/clone'',
       reqHeader = [(''Fastly-Key'', ''key''), (''Accept'', ''application/json'')], reqBody = None\<rparr>,
      mkRequest MethodPost ''/service/svc/version/6/logging/s3'' ''key''
        (Some ''access_key=AK&bucket_name=aws-frontend-logs&name=s3-logs&path=%2Ffastly%2Fsvc&secret_key=SK''),
      mkRequest MethodPut ''/service/svc/version/6/activate'' ''key'' None],
     stdout = []\<rparr>)"
    by (simp add: showInt_def showNat.simps run_create_6 run_activate_6)
  from a' b' show ?thesis by blast
qed

section \<open>Deleting all logging endpoints\<close>








section \<open>What the requests of a run carry\<close>

lemma sentOnly_iff: "sentOnly P s s' = (\<exists>new. sent s' = sent s @ new \<and> list_all P new)"
proof
  assume "sentOnly P s s'"
  then have "sent s' = sent s @ drop (length (sent s)) (sent s')"
    and "list_all P (drop (length (sent s)) (sent s'))"
    by (simp_all add: sentOnly_def) (metis append_take_drop_id)
  then show "\<exists>new. sent s' = sent s @ new \<and> list_all P new" by blast
next
  assume "\<exists>new. sent s' = sent s @ new \<and> list_all P new"
  then show "sentOnly P s s'" by (auto simp add: sentOnly_def)
qed

lemma sentOnly_refl: "sentOnly P s s"
  by (simp add: sentOnly_iff)

lemma sentOnly_trans: "sentOnly P s s' \<Longrightarrow> sentOnly P s' s'' \<Longrightarrow> sentOnly P s s''"
  by (auto simp add: sentOnly_iff)

lemma sentOnly_stdout: "sentOnly P s s' \<Longrightarrow> sentOnly P s (s'\<lparr>stdout := out\<rparr>)"
  by (simp add: sentOnly_iff)

lemma fastlyHTTP_sentOnly':
  assumes "fastlyHTTP env path m key body s = (r, s')" and "P (mkRequest m path key body)"
  shows "sentOnly P s s'"
  using assms fastlyHTTP_sent_any [of env path m key body s] by (simp add: sentOnly_iff)

lemma getActiveService_sentOnly:
  assumes nb: "allowsBody P None"
  shows "sentOnly P s (snd (getActiveService env serviceID fastlyKey s))"
proof -
  obtain r s' where c: "fastlyHTTP env (versionsPath serviceID) MethodGet fastlyKey None s = (r, s')"
    by (cases "fastlyHTTP env (versionsPath serviceID) MethodGet fastlyKey None s")
  have "sentOnly P s s'" using nb fastlyHTTP_sentOnly' [OF c, of P] by (simp add: allowsBody_def)
  then show ?thesis using c
    by (simp add: getActiveService_def split: sum.splits option.splits)
qed

lemma cloneService_sentOnly:
  assumes nb: "allowsBody P None"
  shows "sentOnly P s (snd (cloneService env serviceID v fastlyKey s))"
proof -
  obtain r s' where c: "fastlyHTTP env (clonePath serviceID v) MethodPut fastlyKey None s = (r, s')"
    by (cases "fastlyHTTP env (clonePath serviceID v) MethodPut fastlyKey None s")
  have "sentOnly P s s'" using nb fastlyHTTP_sentOnly' [OF c, of P] by (simp add: allowsBody_def)
  then show ?thesis using c
    by (simp add: cloneService_def split: sum.splits)
qed

lemma activateService_sentOnly:
  assumes nb: "allowsBody P None"
  shows "sentOnly P s (snd (activateService env serviceID v fastlyKey s))"
proof -
  obtain r s' where c: "fastlyHTTP env (activatePath serviceID v) MethodPut fastlyKey None s = (r, s')"
    by (cases "fastlyHTTP env (activatePath serviceID v) MethodPut fastlyKey None s")
  have "sentOnly P s s'" using nb fastlyHTTP_sentOnly' [OF c, of P] by (simp add: allowsBody_def)
  then show ?thesis using c
    by (simp add: activateService_def split: sum.splits)
qed

lemma getLogConfiguration_sentOnly:
  assumes nb: "allowsBody P None"
  shows "sentOnly P s (snd (getLogConfiguration env serviceID v fastlyKey s))"
proof -
  obtain r s' where c: "fastlyHTTP env (loggingPath serviceID v) MethodGet fastlyKey None s = (r, s')"
    by (cases "fastlyHTTP env (loggingPath serviceID v) MethodGet fastlyKey None s")
  have "sentOnly P s s'" using nb fastlyHTTP_sentOnly' [OF c, of P] by (simp add: allowsBody_def)
  then show ?thesis using c
    by (simp add: getLogConfiguration_def split: sum.splits)
qed

lemma deleteLoop_sentOnly:
  assumes nb: "allowsBody P None"
  shows "sentOnly P s (snd (deleteLoop env serviceID v fastlyKey confs s))"
proof (induction confs arbitrary: s)
  case Nil
  show ?case by (simp add: sentOnly_refl)
next
  case (Cons c cs)
  obtain r s' where c:
    "fastlyHTTP env (loggingNamePath serviceID v (confName c)) MethodDelete fastlyKey None s = (r, s')"
    by (cases "fastlyHTTP env (loggingNamePath serviceID v (confName c)) MethodDelete fastlyKey None s")
  have first: "sentOnly P s s'" using nb fastlyHTTP_sentOnly' [OF c, of P] by (simp add: allowsBody_def)
  show ?case
  proof (cases r)
    case (Inl e)
    with c first show ?thesis by simp
  next
    case (Inr b)
    with c have "snd (deleteLoop env serviceID v fastlyKey (c # cs) s) =
                 snd (deleteLoop env serviceID v fastlyKey cs s')" by simp
    with sentOnly_trans [OF first Cons.IH [of s']] show ?thesis by simp
  qed
qed

lemma deleteLogConfiguration_sentOnly:
  assumes nb: "allowsBody P None"
  shows "sentOnly P s (snd (deleteLogConfiguration env serviceID v fastlyKey s))"
proof -
  obtain r s' where g: "getLogConfiguration env serviceID v fastlyKey s = (r, s')"
    by (cases "getLogConfiguration env serviceID v fastlyKey s")
  have first: "sentOnly P s s'"
    using getLogConfiguration_sentOnly [OF nb, of s env serviceID v fastlyKey] g by simp
  show ?thesis
    using g first sentOnly_trans [OF first deleteLoop_sentOnly [OF nb, of s']]
    by (simp add: deleteLogConfiguration_def split: sum.splits)
qed

lemma describeFn_sentOnly:
  assumes nb: "allowsBody P None"
  shows "sentOnly P s (snd (describeFn env fastlyKey serviceID v s))"
proof -
  obtain r s' where g: "getLogConfiguration env serviceID v fastlyKey s = (r, s')"
    by (cases "getLogConfiguration env serviceID v fastlyKey s")
  have first: "sentOnly P s s'"
    using getLogConfiguration_sentOnly [OF nb, of s env serviceID v fastlyKey] g by simp
  show ?thesis
    using g first by (simp add: describeFn_def sentOnly_stdout split: sum.splits)
qed

lemma updateLoggingCreds_sentOnly:
  assumes "allowsBody P (Some (valuesEncode env [(''access_key'', [ak]), (''secret_key'', [sk])]))"
  shows "sentOnly P s (snd (updateLoggingCreds env serviceID v loggingName fastlyKey ak sk s))"
proof -
  let ?b = "Some (valuesEncode env [(''access_key'', [ak]), (''secret_key'', [sk])])"
  obtain r s' where c: "fastlyHTTP env (loggingNamePath serviceID v loggingName) MethodPut fastlyKey ?b s = (r, s')"
    by (cases "fastlyHTTP env (loggingNamePath serviceID v loggingName) MethodPut fastlyKey ?b s")
  have "sentOnly P s s'" using fastlyHTTP_sentOnly' [OF c, of P] assms by (simp add: allowsBody_def)
  then show ?thesis using c
    by (simp add: updateLoggingCreds_def split: sum.splits)
qed

lemma createLogConfiguration_sentOnly:
  assumes "allowsBody P (Some (valuesEncode env [(''name'', [''s3-logs'']), (''access_key'', [ak]),
                (''secret_key'', [sk]), (''bucket_name'', [''aws-frontend-logs'']),
                (''path'', [''/fastly/'' @ serviceID])]))"
  shows "sentOnly P s (snd (createLogConfiguration env serviceID v fastlyKey ak sk s))"
proof -
  let ?b = "Some (valuesEncode env [(''name'', [''s3-logs'']), (''access_key'', [ak]),
                (''secret_key'', [sk]), (''bucket_name'', [''aws-frontend-logs'']),
                (''path'', [''/fastly/'' @ serviceID])])"
  obtain r s' where c: "fastlyHTTP env (loggingPath serviceID v) MethodPost fastlyKey ?b s = (r, s')"
    by (cases "fastlyHTTP env (loggingPath serviceID v) MethodPost fastlyKey ?b s")
  have "sentOnly P s s'" using fastlyHTTP_sentOnly' [OF c, of P] assms by (simp add: allowsBody_def)
  then show ?thesis using c
    by (simp add: createLogConfiguration_def split: sum.splits)
qed

lemma updateService_sentOnly:
  assumes nb: "allowsBody P None" and fn: "\<And>n s. sentOnly P s (snd (fn n s))"
  shows "sentOnly P s (snd (updateService env fastlyKey serviceID fn s))"
proof -
  obtain r1 s1 where g: "getActiveService env serviceID fastlyKey s = (r1, s1)"
    by (cases "getActiveService env serviceID fastlyKey s")
  have a: "sentOnly P s s1"
    using getActiveService_sentOnly [OF nb, of s env serviceID fastlyKey] g by simp
  show ?thesis
  proof (cases r1)
    case (Inl e)
    with g a show ?thesis by (simp add: updateService_def)
  next
    case (Inr v)
    obtain r2 s2 where c: "cloneService env serviceID v fastlyKey s1 = (r2, s2)"
      by (cases "cloneService env serviceID v fastlyKey s1")
    have b: "sentOnly P s s2"
      using sentOnly_trans [OF a cloneService_sentOnly [OF nb, of s1 env serviceID v fastlyKey]] c
      by simp
    show ?thesis
    proof (cases r2)
      case (Inl e)
      with g Inr c b show ?thesis by (simp add: updateService_def)
    next
      case inr2: (Inr n)
      obtain r3 s3 where m: "fn n s2 = (r3, s3)" by (cases "fn n s2")
      have d: "sentOnly P s s3" using sentOnly_trans [OF b fn [of s2 n]] m by simp
      show ?thesis
      proof (cases r3)
        case None
        with g Inr c inr2 m
        have "updateService env fastlyKey serviceID fn s = activateService env serviceID n fastlyKey s3"
          by (simp add: updateService_def)
        with sentOnly_trans [OF d activateService_sentOnly [OF nb, of s3 env serviceID n fastlyKey]]
        show ?thesis by simp
      next
        case (Some e)
        with g Inr c inr2 m d show ?thesis by (simp add: updateService_def)
      qed
    qed
  qed
qed

lemma check_sent: "sent (snd (check err s)) = sent s"
  by (simp add: check_def split: option.splits)

lemma checkArgsVisit_sent: "sent (snd (checkArgsVisit fs s)) = sent s"
  by (induction fs s rule: checkArgsVisit.induct) simp_all

lemma checkArgs_sent: "sent (snd (checkArgs fl s)) = sent s"
  by (simp add: checkArgs_def checkArgsVisit_sent)

lemma sentOnly_check:
  assumes "sentOnly P s s'"
  shows "sentOnly P s (snd (check err s'))"
  using assms check_sent [of err s'] by (simp add: sentOnly_iff)


lemma sentOnly_from:
  assumes "sent s1 = sent s" and "sentOnly P s1 s'"
  shows "sentOnly P s s'"
  using assms by (simp add: sentOnly_iff)

lemma rotateCreds_sentOnly:
  assumes nb: "allowsBody P None"
    and "allowsBody P (Some (valuesEncode env [(''access_key'', [ak]), (''secret_key'', [sk])]))"
  shows "sentOnly P s (snd (rotateCreds env fastlyKey serviceID loggingName ak sk s))"
proof -
  let ?fn = "\<lambda>versionID. updateLoggingCreds env serviceID versionID loggingName fastlyKey ak sk"
  have "sentOnly P s (snd (updateService env fastlyKey serviceID ?fn s))"
    by (rule updateService_sentOnly [OF nb]) (rule updateLoggingCreds_sentOnly [OF assms(2)])
  then show ?thesis
    by (cases "updateService env fastlyKey serviceID ?fn s") (simp add: rotateCreds_def sentOnly_check)
qed

lemma createLogs_sentOnly:
  assumes nb: "allowsBody P None"
    and "allowsBody P (Some (valuesEncode env [(''name'', [''s3-logs'']), (''access_key'', [ak]),
                (''secret_key'', [sk]), (''bucket_name'', [''aws-frontend-logs'']),
                (''path'', [''/fastly/'' @ serviceID])]))"
  shows "sentOnly P s (snd (createLogs env fastlyKey serviceID ak sk s))"
proof -
  let ?fn = "\<lambda>versionID. createLogConfiguration env serviceID versionID fastlyKey ak sk"
  have "sentOnly P s (snd (updateService env fastlyKey serviceID ?fn s))"
    by (rule updateService_sentOnly [OF nb]) (rule createLogConfiguration_sentOnly [OF assms(2)])
  then show ?thesis
    by (cases "updateService env fastlyKey serviceID ?fn s") (simp add: createLogs_def sentOnly_check)
qed

lemma describeLogs_sentOnly:
  assumes nb: "allowsBody P None"
  shows "sentOnly P s (snd (describeLogs env fastlyKey serviceID s))"
proof -
  have "sentOnly P s (snd (updateService env fastlyKey serviceID (describeFn env fastlyKey serviceID) s))"
    by (rule updateService_sentOnly [OF nb]) (rule describeFn_sentOnly [OF nb])
  then show ?thesis
    by (cases "updateService env fastlyKey serviceID (describeFn env fastlyKey serviceID) s")
      (simp add: describeLogs_def sentOnly_check)
qed

lemma deleteLogs_sentOnly:
  assumes nb: "allowsBody P None"
  shows "sentOnly P s (snd (deleteLogs env fastlyKey serviceID s))"
proof -
  let ?fn = "\<lambda>versionID. deleteLogConfiguration env serviceID versionID fastlyKey"
  have "sentOnly P s (snd (updateService env fastlyKey serviceID ?fn s))"
    by (rule updateService_sentOnly [OF nb]) (rule deleteLogConfiguration_sentOnly [OF nb])
  then show ?thesis
    by (cases "updateService env fastlyKey serviceID ?fn s") (simp add: deleteLogs_def sentOnly_check)
qed

lemma main_sentOnly:
  assumes nb: "allowsBody P None"
    and rot: "\<And>ak. allowsBody P
             (Some (valuesEncode env [(''access_key'', [ak]),
                (''secret_key'', [Getenv environ ''AWS_SECRET_KEY''])]))"
    and cre: "\<And>ak sid. allowsBody P
             (Some (valuesEncode env [(''name'', [''s3-logs'']), (''access_key'', [ak]),
                (''secret_key'', [Getenv environ ''AWS_SECRET_KEY'']),
                (''bucket_name'', [''aws-frontend-logs'']),
                (''path'', [''/fastly/'' @ sid])]))"
  shows "sentOnly P s (snd (main env args environ s))"
proof (cases "length args < 2")
  case True
  then show ?thesis by (simp add: main_def sentOnly_refl)
next
  case False
  show ?thesis
  proof (cases "flagParse env flagDefaults (drop 2 args)")
    case (Inl st)
    with False show ?thesis by (simp add: main_def sentOnly_refl)
  next
    case (Inr fl)
    obtain x s1 where ca: "checkArgs fl s = (x, s1)" by (cases "checkArgs fl s")
    have s1: "sent s1 = sent s" using checkArgs_sent [of fl s] ca by simp
    show ?thesis
    proof (cases x)
      case Returned
      have cmds:
        "sentOnly P s1 (snd (rotateCreds env (Getenv environ ''FASTLY_KEY'') (flagServiceID fl)
           (flagLoggingName fl) (flagAwsAccessKey fl) (Getenv environ ''AWS_SECRET_KEY'') s1))"
        "sentOnly P s1 (snd (describeLogs env (Getenv environ ''FASTLY_KEY'') (flagServiceID fl) s1))"
        "sentOnly P s1 (snd (deleteLogs env (Getenv environ ''FASTLY_KEY'') (flagServiceID fl) s1))"
        "sentOnly P s1 (snd (createLogs env (Getenv environ ''FASTLY_KEY'') (flagServiceID fl)
           (flagAwsAccessKey fl) (Getenv environ ''AWS_SECRET_KEY'') s1))"
        "sentOnly P s1 (snd (check (Some InvalidCommand) s1))"
        by (rule rotateCreds_sentOnly [OF nb rot] describeLogs_sentOnly [OF nb]
            deleteLogs_sentOnly [OF nb] createLogs_sentOnly [OF nb cre]
            sentOnly_check [OF sentOnly_refl])+
      have "sentOnly P s1 (snd (main env args environ s))"
        using False Inr ca Returned cmds by (simp add: main_def Let_def)
      then show ?thesis by (rule sentOnly_from [OF s1])
    next
      case (Exited st)
      with False Inr ca have "snd (main env args environ s) = s1" by (simp add: main_def)
      then show ?thesis using s1 by (simp add: sentOnly_iff)
    next
      case Panicked
      with False Inr ca have "snd (main env args environ s) = s1" by (simp add: main_def)
      then show ?thesis using s1 by (simp add: sentOnly_iff)
    qed
  qed
qed

text \<open>
  Claim C9. In every run of \<^verbatim>\<open>main\<close>, whatever the arguments, the library and the remote
  do, the requests sent are added to those sent before, and each of them has no body, or
  the encoding of the credentials form, or the encoding of the creation form; in both
  forms the field \<^verbatim>\<open>secret_key\<close> holds the value of the environment variable
  \<^verbatim>\<open>AWS_SECRET_KEY\<close>. The arguments reach the forms only through the three flags of
  \<open>flagDefaults\<close> (\<^verbatim>\<open>serviceID\<close>, \<^verbatim>\<open>awsAccessKey\<close>, \<^verbatim>\<open>loggingName\<close>), none of which is
  the secret key.
\<close>

theorem main_secret_key_from_environment:
  "\<exists>new. sent (snd (main env args environ s)) = sent s @ new \<and>
     (\<forall>r \<in> set new.
        reqBody r = None \<or>
        (\<exists>ak. reqBody r =
           Some (valuesEncode env [(''access_key'', [ak]),
                                   (''secret_key'', [Getenv environ ''AWS_SECRET_KEY''])])) \<or>
        (\<exists>ak sid. reqBody r =
           Some (valuesEncode env [(''name'', [''s3-logs'']), (''access_key'', [ak]),
                                   (''secret_key'', [Getenv environ ''AWS_SECRET_KEY'']),
                                   (''bucket_name'', [''aws-frontend-logs'']),
                                   (''path'', [''/fastly/'' @ sid])])))"
proof -
  let ?P = "\<lambda>r. reqBody r = None \<or>
        (\<exists>ak. reqBody r =
           Some (valuesEncode env [(''access_key'', [ak]),
                                   (''secret_key'', [Getenv environ ''AWS_SECRET_KEY''])])) \<or>
        (\<exists>ak sid. reqBody r =
           Some (valuesEncode env [(''name'', [''s3-logs'']), (''access_key'', [ak]),
                                   (''secret_key'', [Getenv environ ''AWS_SECRET_KEY'']),
                                   (''bucket_name'', [''aws-frontend-logs'']),
                                   (''path'', [''/fastly/'' @ sid])]))"
  have "sentOnly ?P s (snd (main env args environ s))"
    by (rule main_sentOnly) (auto simp add: allowsBody_def mkRequest_def)
  then show ?thesis by (simp add: sentOnly_iff list_all_iff)
qed

lemmas parse_simps = stubFlagParse.simps splitEq_def setFlag_def flagDefaults_def Let_def

lemma parse_all:
  "flagParse stubEnv flagDefaults (drop 2 [p, c, ''-serviceID'', ''svc'', ''-awsAccessKey'', ''AK'',
      ''-loggingName'', ''s3-logs'']) =
     Inr \<lparr>flagServiceID = ''svc'', flagAwsAccessKey = ''AK'', flagLoggingName = ''s3-logs''\<rparr>"
  by (simp add: stubEnv_def parse_simps)

lemma parse_no_logging:
  "flagParse stubEnv flagDefaults (drop 2 [p, c, ''-serviceID'', ''svc'', ''-awsAccessKey'', ''AK'']) =
     Inr \<lparr>flagServiceID = ''svc'', flagAwsAccessKey = ''AK'', flagLoggingName = ''s3-logs''\<rparr>"
  by (simp add: stubEnv_def parse_simps)

lemma parse_no_service:
  "flagParse stubEnv flagDefaults (drop 2 [p, c, ''-awsAccessKey'', ''AK'']) =
     Inr \<lparr>flagServiceID = [], flagAwsAccessKey = ''AK'', flagLoggingName = ''s3-logs''\<rparr>"
  by (simp add: stubEnv_def parse_simps)

lemma run_rotate_6:
  "updateLoggingCreds stubEnv ''svc'' 6 ''s3-logs'' ''key'' ''AK'' ''SK''
     \<lparr>world = answer 200 b # w, sent = rs, stdout = out\<rparr> =
     (None,
      \<lparr>world = w,
       sent = rs @ [mkRequest MethodPut ''/service/svc/version/6/logging/s3/s3-logs'' ''key''
                      (Some ''access_key=AK&secret_key=SK'')],
       stdout = out\<rparr>)"
  by (simp add: updateLoggingCreds_def stub_call path_simps)
    (simp add: stubEnv_def stubEncode_def sortKeys_def unreserved_def hexByte_def)

lemma run_main_rotate:
  "main stubEnv [''fastly-logging-creds'', ''rotate-creds'', ''-serviceID'', ''svc'', ''-awsAccessKey'', ''AK'',
      ''-loggingName'', ''s3-logs'']
     [''AWS_SECRET_KEY'' \<mapsto> ''SK'', ''FASTLY_KEY'' \<mapsto> ''key'']
     (start [answer 200 versionsBody, answer 200 cloneBody, answer 200 ''{}'', answer 200 ''{}'']) =
   (Returned,
    \<lparr>world = [],
     sent = [mkRequest MethodGet ''/service/svc/version'' ''key'' None,
             mkRequest MethodPut ''/service/svc/version/5/clone'' ''key'' None,
             mkRequest MethodPut ''/service/svc/version/6/logging/s3/s3-logs'' ''key''
               (Some ''access_key=AK&secret_key=SK''),
             mkRequest MethodPut ''/service/svc/version/6/activate'' ''key'' None],
     stdout = []\<rparr>)"
proof -
  have "checkArgs \<lparr>flagServiceID = ''svc'', flagAwsAccessKey = ''AK'', flagLoggingName = ''s3-logs''\<rparr> s =
          (Returned, s)" for s :: "(string + response) list state"
    by (simp add: checkArgs_def)
  then show ?thesis
    unfolding main_def parse_all
    by (simp add: Getenv_def rotateCreds_def updateService_def run_get_5 run_clone_6 run_rotate_6
        run_activate_6 check_def Let_def)
qed


theorem main_secret_key_from_environment_witness:
  "sent (snd (main stubEnv
     [''fastly-logging-creds'', ''rotate-creds'', ''-serviceID'', ''svc'', ''-awsAccessKey'', ''AK'',
      ''-loggingName'', ''s3-logs'']
     [''AWS_SECRET_KEY'' \<mapsto> ''SK'', ''FASTLY_KEY'' \<mapsto> ''key'']
     (start [answer 200 versionsBody, answer 200 cloneBody, answer 200 ''{}'', answer 200 ''{}'']))) =
     [mkRequest MethodGet ''/service/svc/version'' ''key'' None,
      mkRequest MethodPut ''/service/svc/version/5/clone'' ''key'' None,
      mkRequest MethodPut ''/service/svc/version/6/logging/s3/s3-logs'' ''key''
        (Some ''access_key=AK&secret_key=SK''),
      mkRequest MethodPut ''/service/svc/version/6/activate'' ''key'' None] \<and>
   (\<exists>ak. Some ''access_key=AK&secret_key=SK'' =
      Some (valuesEncode stubEnv [(''access_key'', [ak]), (''secret_key'', [''SK''])]) \<or>
      (\<exists>sid. Some ''access_key=AK&secret_key=SK'' =
         Some (valuesEncode stubEnv [(''name'', [''s3-logs'']), (''access_key'', [ak]),
                 (''secret_key'', [''SK'']), (''bucket_name'', [''aws-frontend-logs'']),
                 (''path'', [''/fastly/'' @ sid])])))"
proof -
  let ?args = "[''fastly-logging-creds'', ''rotate-creds'', ''-serviceID'', ''svc'', ''-awsAccessKey'', ''AK'',
      ''-loggingName'', ''s3-logs'']"
  let ?environ = "[''AWS_SECRET_KEY'' \<mapsto> ''SK'', ''FASTLY_KEY'' \<mapsto> ''key'']"
  let ?s = "start [answer 200 versionsBody, answer 200 cloneBody, answer 200 ''{}'', answer 200 ''{}'']"
  let ?r = "mkRequest MethodPut ''/service/svc/version/6/logging/s3/s3-logs'' ''key''
              (Some ''access_key=AK&secret_key=SK'')"
  have run: "sent (snd (main stubEnv ?args ?environ ?s)) =
     [mkRequest MethodGet ''/service/svc/version'' ''key'' None,
      mkRequest MethodPut ''/service/svc/version/5/clone'' ''key'' None, ?r,
      mkRequest MethodPut ''/service/svc/version/6/activate'' ''key'' None]"
    by (simp add: run_main_rotate)
  from main_secret_key_from_environment [of stubEnv ?args ?environ ?s]
  obtain new where new: "sent (snd (main stubEnv ?args ?environ ?s)) = sent ?s @ new"
    and all: "\<forall>r \<in> set new.
        reqBody r = None \<or>
        (\<exists>ak. reqBody r =
           Some (valuesEncode stubEnv [(''access_key'', [ak]),
                                   (''secret_key'', [Getenv ?environ ''AWS_SECRET_KEY''])])) \<or>
        (\<exists>ak sid. reqBody r =
           Some (valuesEncode stubEnv [(''name'', [''s3-logs'']), (''access_key'', [ak]),
                                   (''secret_key'', [Getenv ?environ ''AWS_SECRET_KEY'']),
                                   (''bucket_name'', [''aws-frontend-logs'']),
                                   (''path'', [''/fastly/'' @ sid])]))"
    by blast
  from new run have "?r \<in> set new" by (simp add: start_def)
  with all have
    "reqBody ?r = None \<or>
        (\<exists>ak. reqBody ?r =
           Some (valuesEncode stubEnv [(''access_key'', [ak]),
                                   (''secret_key'', [Getenv ?environ ''AWS_SECRET_KEY''])])) \<or>
        (\<exists>ak sid. reqBody ?r =
           Some (valuesEncode stubEnv [(''name'', [''s3-logs'']), (''access_key'', [ak]),
                                   (''secret_key'', [Getenv ?environ ''AWS_SECRET_KEY'']),
                                   (''bucket_name'', [''aws-frontend-logs'']),
                                   (''path'', [''/fastly/'' @ sid])]))"
    by blast
  then have "\<exists>ak. Some ''access_key=AK&secret_key=SK'' =
      Some (valuesEncode stubEnv [(''access_key'', [ak]), (''secret_key'', [''SK''])]) \<or>
      (\<exists>sid. Some ''access_key=AK&secret_key=SK'' =
         Some (valuesEncode stubEnv [(''name'', [''s3-logs'']), (''access_key'', [ak]),
                 (''secret_key'', [''SK'']), (''bucket_name'', [''aws-frontend-logs'']),
                 (''path'', [''/fastly/'' @ sid])]))"
    by (simp add: mkRequest_def Getenv_def) blast
  with run show ?thesis by blast
qed

section \<open>The creation form\<close>

text \<open>
  Claim C8. When a request can be built for the creation URL, \<open>createLogConfiguration\<close>
  sends exactly one request: a POST to \<^verbatim>\<open>/service/<serviceID>/version/<n>/logging/s3\<close>
  whose body is the encoding of the form with the five fields \<^verbatim>\<open>name = s3-logs\<close>,
  \<^verbatim>\<open>access_key\<close> and \<^verbatim>\<open>secret_key\<close> as given by the caller,
  \<^verbatim>\<open>bucket_name = aws-frontend-logs\<close> and \<^verbatim>\<open>path = /fastly/<serviceID>\<close>, and no other field.
\<close>

theorem createLogConfiguration_form:
  assumes "httpNewRequest env MethodPost (apiURL (loggingPath serviceID versionID)) = None"
  shows "sent (snd (createLogConfiguration env serviceID versionID fastlyKey awsAccessKey awsSecretKey s)) =
           sent s @
           [\<lparr>reqMethod = MethodPost,
             reqURL = ''https://api.fastly.com/service/'' @ serviceID @ ''/version/'' @
                      showInt versionID @ ''/logging/s3'',
             reqHeader = [(''Fastly-Key'', fastlyKey), (''Accept'', ''application/json'')],
             reqBody = Some (valuesEncode env
                         [(''name'', [''s3-logs'']),
                          (''access_key'', [awsAccessKey]),
                          (''secret_key'', [awsSecretKey]),
                          (''bucket_name'', [''aws-frontend-logs'']),
                          (''path'', [''/fastly/'' @ serviceID])])\<rparr>]"
proof -
  let ?b = "Some (valuesEncode env
                         [(''name'', [''s3-logs'']),
                          (''access_key'', [awsAccessKey]),
                          (''secret_key'', [awsSecretKey]),
                          (''bucket_name'', [''aws-frontend-logs'']),
                          (''path'', [''/fastly/'' @ serviceID])])"
  have "sent (snd (createLogConfiguration env serviceID versionID fastlyKey awsAccessKey awsSecretKey s)) =
        sent (snd (fastlyHTTP env (loggingPath serviceID versionID) MethodPost fastlyKey ?b s))"
    by (cases "fastlyHTTP env (loggingPath serviceID versionID) MethodPost fastlyKey ?b s")
      (simp add: createLogConfiguration_def split: sum.splits)
  then show ?thesis
    using fastlyHTTP_sent [OF assms, of fastlyKey ?b s]
    by (simp add: mkRequest_def apiURL_def loggingPath_def)
qed

theorem createLogConfiguration_form_witness:
  "sent (snd (createLogConfiguration stubEnv ''svc'' 6 ''key'' ''AK'' ''SK'' (start [answer 200 ''{}'']))) =
     [\<lparr>reqMethod = MethodPost,
       reqURL = ''https://api.fastly.com/service/svc/version/6/logging/s3'',
       reqHeader = [(''Fastly-Key'', ''key''), (''Accept'', ''application/json'')],
       reqBody = Some ''access_key=AK&bucket_name=aws-frontend-logs&name=s3-logs&path=%2Ffastly%2Fsvc&secret_key=SK''\<rparr>]"
proof -
  have n: "httpNewRequest stubEnv MethodPost (apiURL (loggingPath ''svc'' 6)) = None"
    by (simp add: stubEnv_def)
  show ?thesis
    using createLogConfiguration_form [OF n, of "''key''" "''AK''" "''SK''" "start [answer 200 ''{}'']"]
    by (simp add: start_def showInt_def showNat.simps) (simp add: stubEnv_def stubEncode_def sortKeys_def unreserved_def hexByte_def)
qed

section \<open>Starting the program\<close>

text \<open>
  Claim C10. Started with no argument after the program name, \<^verbatim>\<open>main\<close> panics at
  \<^verbatim>\<open>os.Args[2:]\<close>, before anything is parsed, printed or sent; this is not the outcome of
  the \<^verbatim>\<open>default\<close> branch, which prints the message about a valid command and exits with
  status 1.
\<close>

theorem main_without_command_panics:
  "main env [prog] environ s = (Panicked, s) \<and>
   main env [prog] environ s \<noteq> check (Some InvalidCommand) s"
  by (simp add: main_def check_def)

text \<open>
  Claim C6, as the code has it. Let there be a sub-command argument and let the flags
  parse. If after parsing the value of one of the three flags is empty, \<^verbatim>\<open>main\<close> prints
  \<^verbatim>\<open>Missing required arg '<name>'.\<close> for the first such flag in the order
  \<^verbatim>\<open>awsAccessKey\<close>, \<^verbatim>\<open>loggingName\<close>, \<^verbatim>\<open>serviceID\<close>, and exits with status 1 without
  having sent any request. (\<^verbatim>\<open>loggingName\<close> defaults to \<^verbatim>\<open>s3-logs\<close>, so it is empty only
  when it is given as empty.)
\<close>

theorem main_missing_flag:
  assumes "2 \<le> length args"
    and "flagParse env flagDefaults (drop 2 args) = Inr fl"
    and "flagAwsAccessKey fl = [] \<or> flagLoggingName fl = [] \<or> flagServiceID fl = []"
  shows "main env args environ s =
           (Exited 1,
            s\<lparr>stdout := stdout s @
                [''Missing required arg '' @ [CHR 39] @
                 (if flagAwsAccessKey fl = [] then ''awsAccessKey''
                  else if flagLoggingName fl = [] then ''loggingName''
                  else ''serviceID'') @ [CHR 39] @ ''.'' @ [CHR 0x0A]]\<rparr>) \<and>
         sent (snd (main env args environ s)) = sent s"
  using assms by (auto simp add: main_def checkArgs_def)

theorem main_missing_flag_witness:
  "main stubEnv [''fastly-logging-creds'', ''describe'', ''-awsAccessKey'', ''AK'']
     [''AWS_SECRET_KEY'' \<mapsto> ''SK'', ''FASTLY_KEY'' \<mapsto> ''key'']
     (start [answer 200 versionsBody]) =
   (Exited 1,
    \<lparr>world = [answer 200 versionsBody], sent = [],
     stdout = [''Missing required arg '' @ [CHR 39] @ ''serviceID'' @ [CHR 39] @ ''.'' @ [CHR 0x0A]]\<rparr>)"
proof -
  have l: "2 \<le> length [''fastly-logging-creds'', ''describe'', ''-awsAccessKey'', ''AK'']" by simp
  have e: "flagAwsAccessKey \<lparr>flagServiceID = [], flagAwsAccessKey = ''AK'', flagLoggingName = ''s3-logs''\<rparr> = [] \<or>
           flagLoggingName \<lparr>flagServiceID = [], flagAwsAccessKey = ''AK'', flagLoggingName = ''s3-logs''\<rparr> = [] \<or>
           flagServiceID \<lparr>flagServiceID = [], flagAwsAccessKey = ''AK'', flagLoggingName = ''s3-logs''\<rparr> = []"
    by simp
  show ?thesis
    using main_missing_flag [OF l parse_no_service e, THEN conjunct1]
    by (simp add: start_def)
qed

lemma run_main_describe:
  "main stubEnv [''fastly-logging-creds'', ''describe'', ''-serviceID'', ''svc'', ''-awsAccessKey'', ''AK'']
     [''AWS_SECRET_KEY'' \<mapsto> ''SK'', ''FASTLY_KEY'' \<mapsto> ''key'']
     (start [answer 200 versionsBody, answer 200 cloneBody, answer 200 confsBody, answer 200 ''{}'']) =
   (Returned,
    \<lparr>world = [],
     sent = [mkRequest MethodGet ''/service/svc/version'' ''key'' None,
             mkRequest MethodPut ''/service/svc/version/5/clone'' ''key'' None,
             mkRequest MethodGet ''/service/svc/version/6/logging/s3'' ''key'' None,
             mkRequest MethodPut ''/service/svc/version/6/activate'' ''key'' None],
     stdout = [confsIndented @ [CHR 0x0A]]\<rparr>)"
proof -
  have "checkArgs \<lparr>flagServiceID = ''svc'', flagAwsAccessKey = ''AK'', flagLoggingName = ''s3-logs''\<rparr> s =
          (Returned, s)" for s :: "(string + response) list state"
    by (simp add: checkArgs_def)
  then show ?thesis
    unfolding main_def parse_no_logging
    by (simp add: Getenv_def describeLogs_def updateService_def run_get_5 run_clone_6 run_describe_6
        run_activate_6 check_def Let_def)
qed

lemma run_main_no_env:
  "main stubEnv [''fastly-logging-creds'', ''rotate-creds'', ''-serviceID'', ''svc'', ''-awsAccessKey'', ''AK'',
      ''-loggingName'', ''s3-logs'']
     Map.empty
     (start [answer 401 ''unauthorized'']) =
   (Exited 1,
    \<lparr>world = [],
     sent = [mkRequest MethodGet ''/service/svc/version'' [] None],
     stdout = [''Fastly API request for '' @ [CHR 39] @ ''https://api.fastly.com/service/svc/version'' @
               [CHR 39] @ '' failed: 401, unauthorized'' @ [CHR 0x0A]]\<rparr>)"
proof -
  have c: "checkArgs \<lparr>flagServiceID = ''svc'', flagAwsAccessKey = ''AK'', flagLoggingName = ''s3-logs''\<rparr> s =
          (Returned, s)" for s :: "(string + response) list state"
    by (simp add: checkArgs_def)
  have g: "getActiveService stubEnv ''svc'' [] (start [answer 401 ''unauthorized'']) =
             (Inl (APIError ''https://api.fastly.com/service/svc/version'' 401 ''unauthorized''),
              \<lparr>world = [], sent = [mkRequest MethodGet ''/service/svc/version'' [] None], stdout = []\<rparr>)"
    by (simp add: getActiveService_def start_def stub_call path_simps apiURL_def)
  show ?thesis
    unfolding main_def parse_all
    by (simp add: c g Getenv_def rotateCreds_def updateService_def check_def Let_def showInt_def showNat.simps)
qed

text \<open>
  The claim as the specification words it also covers a \<^verbatim>\<open>loggingName\<close> flag that is not
  given and the two environment variables. In the first run below \<^verbatim>\<open>-loggingName\<close> is not
  given and both variables are set: the program runs to the end with four requests sent.
  In the second run the three flags are given and neither variable is set: the program
  sends the first request with an empty \<^verbatim>\<open>Fastly-Key\<close> and exits on the remote's answer,
  with a message that names no missing input.
\<close>

theorem main_missing_input_counterexample:
  "main stubEnv [''fastly-logging-creds'', ''describe'', ''-serviceID'', ''svc'', ''-awsAccessKey'', ''AK'']
     [''AWS_SECRET_KEY'' \<mapsto> ''SK'', ''FASTLY_KEY'' \<mapsto> ''key'']
     (start [answer 200 versionsBody, answer 200 cloneBody, answer 200 confsBody, answer 200 ''{}'']) =
   (Returned,
    \<lparr>world = [],
     sent = [mkRequest MethodGet ''/service/svc/version'' ''key'' None,
             mkRequest MethodPut ''/service/svc/version/5/clone'' ''key'' None,
             mkRequest MethodGet ''/service/svc/version/6/logging/s3'' ''key'' None,
             mkRequest MethodPut ''/service/svc/version/6/activate'' ''key'' None],
     stdout = [confsIndented @ [CHR 0x0A]]\<rparr>) \<and>
   main stubEnv [''fastly-logging-creds'', ''rotate-creds'', ''-serviceID'', ''svc'', ''-awsAccessKey'', ''AK'',
      ''-loggingName'', ''s3-logs'']
     Map.empty
     (start [answer 401 ''unauthorized'']) =
   (Exited 1,
    \<lparr>world = [],
     sent = [mkRequest MethodGet ''/service/svc/version'' [] None],
     stdout = [''Fastly API request for '' @ [CHR 39] @ ''https://api.fastly.com/service/svc/version'' @
               [CHR 39] @ '' failed: 401, unauthorized'' @ [CHR 0x0A]]\<rparr>)"
  using run_main_describe run_main_no_env by simp

end
